theory Spec2Isabelle
  imports Complex_Main "HOL-Library.Word" "HOL-Library.Sublist" "HOL-Library.Log_Nat"
begin

section \<open>The scheme-switching serialization example\<close>

text \<open>
  A shallow embedding of \<^verbatim>\<open>src/pke/examples/scheme-switching-serial.cpp\<close>: the three
  roles \<^verbatim>\<open>serverSetupAndWrite\<close>, \<^verbatim>\<open>clientProcess\<close> and \<^verbatim>\<open>serverVerification\<close>, and
  \<^verbatim>\<open>main\<close> that runs them in one process. Every statement of the source is a state
  transformer that also returns the events it causes (console output, file
  serialization, calls into the library), so that a run yields the sequence of what
  the program did. \<^verbatim>\<open>std::exit\<close> ends a run with an exit status.
\<close>

subsection \<open>Library types the example uses\<close>

type_synonym uint32 = "32 word"
type_synonym uint64 = "64 word"

datatype SecurityLevel =
  HEStd_128_classic | HEStd_192_classic | HEStd_256_classic
  | HEStd_128_quantum | HEStd_192_quantum | HEStd_256_quantum | HEStd_NotSet

datatype BINFHE_PARAMSET = TOY | MEDIUM | STD128_AP | STD128 | STD192 | STD256

datatype ScalingTechnique = FIXEDMANUAL | FIXEDAUTO | FLEXIBLEAUTO | FLEXIBLEAUTOEXT

datatype PKESchemeFeature =
  PKE | KEYSWITCH | PRE | LEVELEDSHE | ADVANCEDSHE | MULTIPARTY | FHE | SCHEMESWITCH

text \<open>\<^verbatim>\<open>CCParams<CryptoContextCKKSRNS>\<close>: the fields the example sets.\<close>

record CCParams =
  p_multiplicativeDepth :: uint32
  p_securityLevel :: SecurityLevel
  p_ringDim :: uint32
  p_batchSize :: uint32
  p_scalingModSize :: uint32
  p_firstModSize :: uint32
  p_scalingTechnique :: ScalingTechnique

text \<open>
  Keys are opaque to the example. A key is identified by a number; what the number
  means is the library's business.
\<close>

datatype PublicKeyImpl = PublicKeyImpl nat
datatype PrivateKeyImpl = PrivateKeyImpl nat
datatype EvalKeyImpl = EvalKeyImpl nat
datatype LWEPrivateKeyImpl = LWEPrivateKeyImpl nat
datatype RingGSWACCKeyImpl = RingGSWACCKeyImpl nat
datatype LWESwitchingKeyImpl = LWESwitchingKeyImpl nat

text \<open>
  \<^verbatim>\<open>RingGSWACCKey\<close> and \<^verbatim>\<open>LWESwitchingKey\<close> are shared pointers: a default-constructed
  one is null (\<open>None\<close>).
\<close>

type_synonym RingGSWACCKey = "RingGSWACCKeyImpl option"
type_synonym LWESwitchingKey = "LWESwitchingKeyImpl option"

record KeyPair =
  publicKey :: PublicKeyImpl
  secretKey :: PrivateKeyImpl

record RingGSWBTKey =
  BSkey :: RingGSWACCKey
  KSkey :: LWESwitchingKey

text \<open>
  The arguments of \<^verbatim>\<open>EvalSchemeSwitchingSetup\<close>, in the order of the call; the first four
  and the ninth carry the names of the variables the example passes, the others are
  named by their position.
\<close>

record SchSwchParams =
  ss_sl :: SecurityLevel
  ss_slBin :: BINFHE_PARAMSET
  ss_arbFunc :: bool
  ss_logQ_LWE :: uint32
  ss_arg5 :: bool
  ss_arg6 :: uint32
  ss_arg7 :: uint32
  ss_arg8 :: bool
  ss_oneHot :: bool
  ss_arg10 :: bool
  ss_arg11 :: uint32
  ss_arg12 :: uint32
  ss_arg13 :: uint32
  ss_arg14 :: uint32
  ss_arg15 :: uint32

text \<open>
  The secondary (binary-scheme) context. \<open>bin_beta\<close> is what \<^verbatim>\<open>GetBeta().ConvertToInt()\<close>
  returns, a 64-bit unsigned integer. \<open>BTKey\<close> is the default bootstrapping bundle,
  \<open>BTKey_map\<close> the map from decomposition base to bundle, in the order its iterator
  visits it.
\<close>

record BinFHEContext =
  bin_paramset :: BINFHE_PARAMSET
  bin_arbFunc :: bool
  bin_logQ :: uint32
  bin_beta :: uint64
  BTKey :: RingGSWBTKey
  BTKey_map :: "(uint32 \<times> RingGSWBTKey) list"

text \<open>
  A ciphertext: the tag of the key it is under, its slot count, and a payload only
  the library reads.
\<close>

record CiphertextImpl =
  ct_keyTag :: nat
  ct_slots :: uint32
  ct_payload :: "complex list"

type_synonym PlaintextImpl = "complex list"

text \<open>The arguments of \<^verbatim>\<open>EvalCompareSwitchPrecompute\<close>, in the order of the call.\<close>

record PrecomputeArgs =
  pre_pLWE :: uint32
  pre_arg2 :: uint32
  pre_scaleSign :: real
  pre_arg4 :: bool

record CryptoContextImpl =
  cc_parameters :: CCParams
  cc_enabled :: "PKESchemeFeature set"
  cc_schSwch :: "SchSwchParams option"
  cc_binCC :: "BinFHEContext option"
  cc_swkFC :: "CiphertextImpl option"
  cc_precompute :: "PrecomputeArgs option"

subsection \<open>Files, events, process state\<close>

text \<open>
  What a file of the data folder holds: one serialized object. The two bootstrapping
  keys are written as the shared pointers they are, null included.
\<close>

datatype artifact =
  ACryptoContext CryptoContextImpl
  | APublicKey PublicKeyImpl
  | APrivateKey PrivateKeyImpl
  | AEvalMultKeys "EvalKeyImpl list"
  | AEvalAutomorphismKeys "EvalKeyImpl list"
  | ACiphertext CiphertextImpl
  | ABinFHEContext BinFHEContext
  | ARingGSWACCKey RingGSWACCKey
  | ALWESwitchingKey LWESwitchingKey
  | AEmptyFile

text \<open>
  What a run does, in order. \<open>Pack\<close> is a call of a serializer with the file, the
  object handed over and the call's result; \<open>Unpack\<close> a call of a deserializer with
  the file and what it produced (\<open>None\<close> when it failed).
\<close>

datatype event =
  Cout string
  | CoutVec string "complex list"
  | Cerr string
  | Exit int
  | OfstreamOpen string bool
  | IfstreamOpen string bool
  | Pack string artifact bool
  | Unpack string "artifact option"
  | Call_ClearEvalMultKeys
  | Call_ClearEvalSumKeys
  | Call_ClearEvalAutomorphismKeys
  | Call_ReleaseAllContexts
  | Call_GenCryptoContext CCParams
  | Call_Enable PKESchemeFeature
  | Call_KeyGen
  | Call_EvalSchemeSwitchingSetup SchSwchParams
  | Call_EvalSchemeSwitchingKeyGen KeyPair LWEPrivateKeyImpl
  | Call_MakeCKKSPackedPlaintext "complex list"
  | Call_Encrypt PublicKeyImpl PlaintextImpl
  | Call_Decrypt PrivateKeyImpl "CiphertextImpl option"
  | Call_SetLength int
  | Call_BTKeyMapLoadSingleElement uint32 RingGSWBTKey
  | Call_BTKeyLoad RingGSWBTKey
  | Call_SetBinCCForSchemeSwitch BinFHEContext
  | Call_SetSwkFC CiphertextImpl
  | Call_EvalCompareSwitchPrecompute PrecomputeArgs
  | Call_EvalMinSchemeSwitching CiphertextImpl PublicKeyImpl uint32 uint32 uint32 uint32

datatype status = Running | Exited int | Crashed


text \<open>
  The environment of a run: which files can be opened for writing and for reading,
  and whether writing a key registry onto an open stream succeeds.
\<close>

record env =
  out_ok :: "string \<Rightarrow> bool"
  in_ok :: "string \<Rightarrow> bool"
  stream_ok :: "string \<Rightarrow> bool"

text \<open>What \<^verbatim>\<open>EvalSchemeSwitchingKeyGen\<close> leaves behind in the contexts and registries.\<close>

record SchSwchKeys =
  gen_BTKey :: RingGSWBTKey
  gen_BTKey_map :: "(uint32 \<times> RingGSWBTKey) list"
  gen_swkFC :: CiphertextImpl
  gen_evalMultKeys :: "EvalKeyImpl list"
  gen_evalSumKeys :: "EvalKeyImpl list"
  gen_evalAutomorphismKeys :: "EvalKeyImpl list"

text \<open>
  The library behind \<^verbatim>\<open>openfhe.h\<close> and \<^verbatim>\<open>binfhecontext.h\<close> is not among the sources:
  the example only calls it. Each operation whose result the example passes on is a
  parameter here, so that the theorems about the example hold whatever the library
  computes. \<open>eSaveCC\<close> and \<open>eSaveBinCC\<close> give the part of a context that its
  serialized form carries.
\<close>

record engine =
  eKeyGen :: "CryptoContextImpl \<Rightarrow> KeyPair"
  eSchemeSwitchingSetup :: "CryptoContextImpl \<Rightarrow> SchSwchParams \<Rightarrow> BinFHEContext \<times> LWEPrivateKeyImpl"
  eSchemeSwitchingKeyGen :: "CryptoContextImpl \<Rightarrow> KeyPair \<Rightarrow> LWEPrivateKeyImpl \<Rightarrow> SchSwchKeys"
  eEncrypt :: "CryptoContextImpl \<Rightarrow> PublicKeyImpl \<Rightarrow> PlaintextImpl \<Rightarrow> CiphertextImpl"
  eDecrypt :: "CryptoContextImpl \<Rightarrow> PrivateKeyImpl \<Rightarrow> CiphertextImpl \<Rightarrow> PlaintextImpl"
  eEvalMinSchemeSwitching ::
    "CryptoContextImpl \<Rightarrow> CiphertextImpl \<Rightarrow> PublicKeyImpl \<Rightarrow> uint32 \<Rightarrow> uint32 \<Rightarrow> uint32 \<Rightarrow> uint32
      \<Rightarrow> CiphertextImpl list"
  eSaveCC :: "CryptoContextImpl \<Rightarrow> CryptoContextImpl"
  eSaveBinCC :: "BinFHEContext \<Rightarrow> BinFHEContext"

text \<open>
  The state of the process: its status, the data folder, the process-wide registries
  of the library (evaluation keys, registered contexts), and the local variables of
  the three roles and of \<^verbatim>\<open>main\<close> under their names in the source. A shared pointer is
  an option, \<open>None\<close> when null. What has been written onto an output stream is
  \<open>pending\<close> until the stream is closed or destroyed; only then is it in the file.
\<close>

record state =
  status :: status
  files :: "string \<rightharpoonup> artifact"
  pending :: "string \<rightharpoonup> artifact"
  evalMultKeyMap :: "EvalKeyImpl list"
  evalSumKeyMap :: "EvalKeyImpl list"
  evalAutomorphismKeyMap :: "EvalKeyImpl list"
  allContexts :: "CCParams list"
  parameters :: CCParams
  serverCC :: "CryptoContextImpl option"
  serverKP :: "KeyPair option"
  privateKeyFHEW :: "LWEPrivateKeyImpl option"
  serverBinCC :: "BinFHEContext option"
  swkFHEWtoCKKS :: "CiphertextImpl option"
  vec :: "complex list"
  serverP :: "PlaintextImpl option"
  serverC :: "CiphertextImpl option"
  clientCC :: "CryptoContextImpl option"
  clientPublicKey :: "PublicKeyImpl option"
  clientBinCC :: "BinFHEContext option"
  refreshKey :: RingGSWACCKey
  ksKey :: LWESwitchingKey
  baseGlist :: "uint32 list"
  client_swkFHEWtoCKKS :: "CiphertextImpl option"
  clientC :: "CiphertextImpl option"
  beta :: uint64
  pLWE :: uint64
  clientCiphertextArgmin :: "CiphertextImpl list"
  serverCiphertextFromClient_Argmin :: "CiphertextImpl option"
  serverPlaintextFromClient_Argmin :: "PlaintextImpl option"
  tupleCryptoContext_KeyPair :: "(CryptoContextImpl \<times> KeyPair \<times> int) option"
  ArgminRes :: "PlaintextImpl option"


subsection \<open>Statements\<close>

text \<open>
  A statement maps a state to the events it causes and the state it leaves; a
  condition also returns its truth value.
\<close>

type_synonym stmt = "state \<Rightarrow> event list \<times> state"
type_synonym cond = "state \<Rightarrow> bool \<times> event list \<times> state"

definition skip :: stmt where
  "skip s = ([], s)"

definition emit :: "event \<Rightarrow> stmt" where
  "emit e s = ([e], s)"

definition assign :: "(state \<Rightarrow> state) \<Rightarrow> stmt" where
  "assign f s = ([], f s)"

text \<open>A call into the library: the event, and the call's effect on the state.\<close>

definition call :: "event \<Rightarrow> (state \<Rightarrow> state) \<Rightarrow> stmt" where
  "call e f s = ([e], f s)"

definition cout :: "string \<Rightarrow> stmt" where
  "cout msg = emit (Cout msg)"

definition cerr :: "string \<Rightarrow> stmt" where
  "cerr msg = emit (Cerr msg)"

definition std_exit :: "int \<Rightarrow> stmt" where
  "std_exit n s = ([Exit n], s\<lparr>status := Exited n\<rparr>)"

text \<open>
  Undefined behaviour or an exception nobody catches (a null pointer used, a vector
  read out of range, a division by zero): the process ends abnormally.
\<close>

definition crash :: stmt where
  "crash s = ([], s\<lparr>status := Crashed\<rparr>)"

text \<open>Statements in sequence; nothing runs once the process has ended.\<close>

fun block :: "stmt list \<Rightarrow> stmt" where
  "block [] s = ([], s)"
| "block (c # cs) s =
     (if status s = Running
      then (let (es, s') = c s; (es', s'') = block cs s' in (es @ es', s''))
      else ([], s))"

definition if_else :: "cond \<Rightarrow> stmt \<Rightarrow> stmt \<Rightarrow> stmt" where
  "if_else b c1 c2 s =
     (let (r, es, s') = b s; (es', s'') = (if r then c1 else c2) s' in (es @ es', s''))"

definition if_not :: "cond \<Rightarrow> stmt \<Rightarrow> stmt" where
  "if_not b c = if_else b skip c"

text \<open>An expression statement: the value of the expression is dropped.\<close>

definition expr_stmt :: "cond \<Rightarrow> stmt" where
  "expr_stmt b s = (let (r, es, s') = b s in (es, s'))"

definition with_val :: "(state \<Rightarrow> 'a) \<Rightarrow> ('a \<Rightarrow> stmt) \<Rightarrow> stmt" where
  "with_val f c s = c (f s) s"

definition deref :: "(state \<Rightarrow> 'a option) \<Rightarrow> ('a \<Rightarrow> stmt) \<Rightarrow> stmt" where
  "deref p c s = (case p s of None \<Rightarrow> crash s | Some x \<Rightarrow> c x s)"

subsection \<open>Files and serialization\<close>

definition DATAFOLDER :: string where "DATAFOLDER = ''demoData''"
definition ccLocation :: string where "ccLocation = ''/cryptocontext.txt''"
definition pubKeyLocation :: string where "pubKeyLocation = ''/key_pub.txt''"
definition multKeyLocation :: string where "multKeyLocation = ''/key_mult.txt''"
definition rotKeyLocation :: string where "rotKeyLocation = ''/key_rot.txt''"
definition paramssLocation :: string where "paramssLocation = ''/paramss.txt''"
definition binccLocation :: string where "binccLocation = ''/bincryptocontext.txt''"
definition btRkLocation :: string where "btRkLocation = ''/bt_rk.txt''"
definition btSwkLocation :: string where "btSwkLocation = ''/bt_swk.txt''"
definition FHEWtoCKKSKeyLocation :: string where "FHEWtoCKKSKeyLocation = ''/key_swkFC.txt''"
definition cipherLocation :: string where "cipherLocation = ''/ciphertext.txt''"
definition cipherArgminLocation :: string where "cipherArgminLocation = ''/ciphertextArgmin.txt''"

text \<open>\<^verbatim>\<open>std::to_string\<close> of an unsigned integer: its decimal digits.\<close>

definition digit_char :: "nat \<Rightarrow> char" where
  "digit_char d = ''0123456789'' ! d"

fun to_string :: "nat \<Rightarrow> string" where
  "to_string n = (if n < 10 then [digit_char n] else to_string (n div 10) @ [digit_char (n mod 10)])"

definition refreshKeyFile :: "uint32 \<Rightarrow> string" where
  "refreshKeyFile index = DATAFOLDER @ ''/'' @ to_string (unat index) @ ''refreshKey.txt''"

definition ksKeyFile :: "uint32 \<Rightarrow> string" where
  "ksKeyFile index = DATAFOLDER @ ''/'' @ to_string (unat index) @ ''ksKey.txt''"

text \<open>The serialized form of an object: of a context, the part the library saves.\<close>

fun saved :: "engine \<Rightarrow> artifact \<Rightarrow> artifact" where
  "saved eng (ACryptoContext c) = ACryptoContext (eSaveCC eng c)"
| "saved eng (ABinFHEContext b) = ABinFHEContext (eSaveBinCC eng b)"
| "saved eng a = a"

text \<open>
  \<^verbatim>\<open>Serial::SerializeToFile\<close>: false when the file cannot be written, else the file holds
  the serialized object.
\<close>

definition SerializeToFile :: "engine \<Rightarrow> env \<Rightarrow> string \<Rightarrow> artifact \<Rightarrow> cond" where
  "SerializeToFile eng env path a s =
     (if out_ok env path
      then (True, [Pack path a True], s\<lparr>files := (files s)(path \<mapsto> saved eng a)\<rparr>)
      else (False, [Pack path a False], s))"

text \<open>
  \<^verbatim>\<open>Serial::DeserializeFromFile\<close> into a variable of one type: false, and the variable
  untouched, when the file cannot be read or does not hold an object of that type.
\<close>

definition DeserializeFromFile ::
  "env \<Rightarrow> string \<Rightarrow> (artifact \<Rightarrow> 'a option) \<Rightarrow> ('a \<Rightarrow> state \<Rightarrow> state) \<Rightarrow> cond" where
  "DeserializeFromFile env path decode store s =
     (case (if in_ok env path then files s path else None) of
        None \<Rightarrow> (False, [Unpack path None], s)
      | Some a \<Rightarrow>
          (case decode a of
             None \<Rightarrow> (False, [Unpack path None], s)
           | Some v \<Rightarrow> (True, [Unpack path (Some a)], store v s)))"

text \<open>
  \<^verbatim>\<open>std::ofstream f(path)\<close> with \<^verbatim>\<open>f.is_open()\<close>: opening creates the file or empties it.
  \<^verbatim>\<open>std::ifstream f(path)\<close> with \<^verbatim>\<open>f.is_open()\<close>: the file must exist.
\<close>

definition ofstream_is_open :: "env \<Rightarrow> string \<Rightarrow> cond" where
  "ofstream_is_open env path s =
     (if out_ok env path then (True, [OfstreamOpen path True], s\<lparr>files := (files s)(path \<mapsto> AEmptyFile)\<rparr>)
      else (False, [OfstreamOpen path False], s))"

definition ifstream_is_open :: "env \<Rightarrow> string \<Rightarrow> cond" where
  "ifstream_is_open env path s =
     (let ok = (in_ok env path \<and> files s path \<noteq> None) in (ok, [IfstreamOpen path ok], s))"

text \<open>
  Serializers and deserializers on a stream that is open on a file. What a serializer
  writes stays with the output stream until \<^verbatim>\<open>close()\<close> or the destructor of the stream
  hands it to the file; \<^verbatim>\<open>std::exit\<close> destroys no local stream, so a process that exits
  with a stream open leaves the file without what was written (the file the opening
  made stands for it here).
\<close>

definition SerializeToStream :: "env \<Rightarrow> string \<Rightarrow> artifact \<Rightarrow> cond" where
  "SerializeToStream env path a s =
     (if stream_ok env path then (True, [Pack path a True], s\<lparr>pending := (pending s)(path \<mapsto> a)\<rparr>)
      else (False, [Pack path a False], s))"

definition ofstream_close :: "string \<Rightarrow> stmt" where
  "ofstream_close path s =
     (case pending s path of
        None \<Rightarrow> ([], s)
      | Some a \<Rightarrow> ([], s\<lparr>files := (files s)(path \<mapsto> a), pending := (pending s)(path := None)\<rparr>))"

definition DeserializeFromStream ::
  "string \<Rightarrow> (artifact \<Rightarrow> 'a option) \<Rightarrow> ('a \<Rightarrow> state \<Rightarrow> state) \<Rightarrow> cond" where
  "DeserializeFromStream path decode store s =
     (case files s path of
        None \<Rightarrow> (False, [Unpack path None], s)
      | Some a \<Rightarrow>
          (case decode a of
             None \<Rightarrow> (False, [Unpack path None], s)
           | Some v \<Rightarrow> (True, [Unpack path (Some a)], store v s)))"

fun as_CryptoContext :: "artifact \<Rightarrow> CryptoContextImpl option" where
  "as_CryptoContext (ACryptoContext c) = Some c"
| "as_CryptoContext _ = None"

fun as_PublicKey :: "artifact \<Rightarrow> PublicKeyImpl option" where
  "as_PublicKey (APublicKey k) = Some k"
| "as_PublicKey _ = None"

fun as_EvalMultKeys :: "artifact \<Rightarrow> EvalKeyImpl list option" where
  "as_EvalMultKeys (AEvalMultKeys ks) = Some ks"
| "as_EvalMultKeys _ = None"

fun as_EvalAutomorphismKeys :: "artifact \<Rightarrow> EvalKeyImpl list option" where
  "as_EvalAutomorphismKeys (AEvalAutomorphismKeys ks) = Some ks"
| "as_EvalAutomorphismKeys _ = None"

fun as_Ciphertext :: "artifact \<Rightarrow> CiphertextImpl option" where
  "as_Ciphertext (ACiphertext c) = Some c"
| "as_Ciphertext _ = None"

fun as_BinFHEContext :: "artifact \<Rightarrow> BinFHEContext option" where
  "as_BinFHEContext (ABinFHEContext c) = Some c"
| "as_BinFHEContext _ = None"

fun as_RingGSWACCKey :: "artifact \<Rightarrow> RingGSWACCKey option" where
  "as_RingGSWACCKey (ARingGSWACCKey k) = Some k"
| "as_RingGSWACCKey _ = None"

fun as_LWESwitchingKey :: "artifact \<Rightarrow> LWESwitchingKey option" where
  "as_LWESwitchingKey (ALWESwitchingKey k) = Some k"
| "as_LWESwitchingKey _ = None"


subsection \<open>Library calls with an effect on the example's state\<close>

text \<open>
  Modelled from the spec: \<^verbatim>\<open>GenCryptoContext\<close> (section 3, EvaluationContext: the object
  holding all scheme parameters and enabled capability flags; capabilities must be
  explicitly enabled). A new context has no capability and nothing attached.
\<close>

definition GenCryptoContext :: "CCParams \<Rightarrow> CryptoContextImpl" where
  "GenCryptoContext p =
     \<lparr>cc_parameters = p, cc_enabled = {}, cc_schSwch = None, cc_binCC = None,
      cc_swkFC = None, cc_precompute = None\<rparr>"

text \<open>
  Modelled from the spec: \<^verbatim>\<open>EvalSchemeSwitchingKeyGen\<close> (section 4.2, step 4: it populates
  the InterSchemeSwitchingKey and finalizes the SecondaryContext's internal
  bootstrapping keys) and the key registries it fills. The keys are the engine's.
\<close>

definition EvalSchemeSwitchingKeyGen ::
  "engine \<Rightarrow> CryptoContextImpl \<Rightarrow> KeyPair \<Rightarrow> LWEPrivateKeyImpl \<Rightarrow> stmt" where
  "EvalSchemeSwitchingKeyGen eng cc kp sk =
     call (Call_EvalSchemeSwitchingKeyGen kp sk)
       (\<lambda>s. let g = eSchemeSwitchingKeyGen eng cc kp sk in
          s\<lparr>serverCC :=
              Some (cc\<lparr>cc_swkFC := Some (gen_swkFC g),
                       cc_binCC := map_option
                         (\<lambda>b. b\<lparr>BTKey := gen_BTKey g, BTKey_map := gen_BTKey_map g\<rparr>)
                         (cc_binCC cc)\<rparr>),
            evalMultKeyMap := evalMultKeyMap s @ gen_evalMultKeys g,
            evalSumKeyMap := evalSumKeyMap s @ gen_evalSumKeys g,
            evalAutomorphismKeyMap := evalAutomorphismKeyMap s @ gen_evalAutomorphismKeys g\<rparr>)"

text \<open>
  Modelled from the spec: the insertion into the BootstrappingKeyMap (section 9: a
  mapping keyed by the decomposition-base integer, with an insertion operation). The
  entry under the base is replaced, or added where the key order puts it.
\<close>

fun map_insert :: "uint32 \<Rightarrow> RingGSWBTKey \<Rightarrow> (uint32 \<times> RingGSWBTKey) list \<Rightarrow> (uint32 \<times> RingGSWBTKey) list" where
  "map_insert k v [] = [(k, v)]"
| "map_insert k v ((k', v') # m) =
     (if k = k' then (k, v) # m
      else if k < k' then (k, v) # (k', v') # m
      else (k', v') # map_insert k v m)"

text \<open>
  Modelled from the spec: \<^verbatim>\<open>SetLength\<close> of a plaintext (section 3, Plaintext: a vector
  with an explicit settable logical length); the vector is cut to that length, or
  filled up with zeros.
\<close>

definition SetLength :: "nat \<Rightarrow> PlaintextImpl \<Rightarrow> PlaintextImpl" where
  "SetLength n v = take n v @ replicate (n - length v) 0"

text \<open>
  \<^verbatim>\<open>cc->Decrypt(sk, ciphertext, &plaintext)\<close>: the call is made with the ciphertext as it
  is. A null ciphertext has nothing to decrypt: the library throws or reads through
  the null pointer, and the process ends abnormally.
\<close>

definition Decrypt ::
  "engine \<Rightarrow> CryptoContextImpl \<Rightarrow> PrivateKeyImpl \<Rightarrow> CiphertextImpl option
    \<Rightarrow> (PlaintextImpl \<Rightarrow> state \<Rightarrow> state) \<Rightarrow> stmt" where
  "Decrypt eng cc sk c store =
     (case c of
        None \<Rightarrow> block [emit (Call_Decrypt sk None), crash]
      | Some ct \<Rightarrow> call (Call_Decrypt sk (Some ct)) (store (eDecrypt eng cc sk ct)))"

subsection \<open>The example\<close>

definition demarcate :: "string \<Rightarrow> stmt" where
  "demarcate msg =
     block [cout (replicate 49 (CHR ''*'')), cout msg, cout (replicate 49 (CHR ''*''))]"

definition Enable :: "PKESchemeFeature \<Rightarrow> stmt" where
  "Enable f =
     deref serverCC (\<lambda>cc.
       call (Call_Enable f) (\<lambda>s. s\<lparr>serverCC := Some (cc\<lparr>cc_enabled := insert f (cc_enabled cc)\<rparr>)\<rparr>))"

definition serverVerification ::
  "engine \<Rightarrow> env \<Rightarrow> CryptoContextImpl \<Rightarrow> KeyPair \<Rightarrow> int \<Rightarrow> stmt" where
  "serverVerification eng env cc kp vectorSize =
     block [
       assign (\<lambda>s. s\<lparr>serverCiphertextFromClient_Argmin := None\<rparr>),
       expr_stmt (DeserializeFromFile env (DATAFOLDER @ cipherArgminLocation) as_Ciphertext
         (\<lambda>v s. s\<lparr>serverCiphertextFromClient_Argmin := Some v\<rparr>)),
       cout ''Deserialized all data from client on server'',
       demarcate ''Part 5: Correctness verification'',
       assign (\<lambda>s. s\<lparr>serverPlaintextFromClient_Argmin := None\<rparr>),
       with_val serverCiphertextFromClient_Argmin (\<lambda>c.
         Decrypt eng cc (secretKey kp) c
           (\<lambda>pt s. s\<lparr>serverPlaintextFromClient_Argmin := Some pt\<rparr>)),
       deref serverPlaintextFromClient_Argmin (\<lambda>pt.
         if vectorSize < 0 then crash
         else call (Call_SetLength vectorSize)
           (\<lambda>s. s\<lparr>serverPlaintextFromClient_Argmin := Some (SetLength (nat vectorSize) pt)\<rparr>)),
       assign (\<lambda>s. s\<lparr>ArgminRes := serverPlaintextFromClient_Argmin s\<rparr>)
     ]"

text \<open>
  \<^verbatim>\<open>serverSetupAndWrite\<close>, in the two parts the source marks: generation of the
  contexts, the keys and the ciphertext (lines 134 to 186), and their serialization
  (lines 202 to 294).
\<close>

definition server_generate ::
  "engine \<Rightarrow> uint32 \<Rightarrow> uint32 \<Rightarrow> uint32 \<Rightarrow> uint32 \<Rightarrow> uint32 \<Rightarrow> uint32 \<Rightarrow> bool \<Rightarrow> stmt list" where
  "server_generate eng ringDim batchSize multDepth scaleModSize firstModSize logQ_LWE oneHot =
    (let sl = HEStd_NotSet; slBin = TOY; arbFunc = False in
     [
       assign (\<lambda>s. s\<lparr>parameters := (parameters s)\<lparr>p_multiplicativeDepth := multDepth\<rparr>\<rparr>),
       assign (\<lambda>s. s\<lparr>parameters := (parameters s)\<lparr>p_securityLevel := sl\<rparr>\<rparr>),
       assign (\<lambda>s. s\<lparr>parameters := (parameters s)\<lparr>p_ringDim := ringDim\<rparr>\<rparr>),
       assign (\<lambda>s. s\<lparr>parameters := (parameters s)\<lparr>p_batchSize := batchSize\<rparr>\<rparr>),
       assign (\<lambda>s. s\<lparr>parameters := (parameters s)\<lparr>p_scalingModSize := scaleModSize\<rparr>\<rparr>),
       assign (\<lambda>s. s\<lparr>parameters := (parameters s)\<lparr>p_firstModSize := firstModSize\<rparr>\<rparr>),
       assign (\<lambda>s. s\<lparr>parameters := (parameters s)\<lparr>p_scalingTechnique := FLEXIBLEAUTO\<rparr>\<rparr>),
       with_val parameters (\<lambda>p.
         call (Call_GenCryptoContext p)
           (\<lambda>s. s\<lparr>serverCC := Some (GenCryptoContext p), allContexts := allContexts s @ [p]\<rparr>)),
       Enable PKE,
       Enable KEYSWITCH,
       Enable LEVELEDSHE,
       Enable ADVANCEDSHE,
       Enable FHE,
       Enable SCHEMESWITCH,
       cout ''Cryptocontext generated'',
       deref serverCC (\<lambda>cc. call Call_KeyGen (\<lambda>s. s\<lparr>serverKP := Some (eKeyGen eng cc)\<rparr>)),
       cout ''Keypair generated'',
       deref serverCC (\<lambda>cc.
         let a = \<lparr>ss_sl = sl, ss_slBin = slBin, ss_arbFunc = arbFunc, ss_logQ_LWE = logQ_LWE,
                  ss_arg5 = False, ss_arg6 = batchSize, ss_arg7 = batchSize, ss_arg8 = True,
                  ss_oneHot = oneHot, ss_arg10 = False, ss_arg11 = 27, ss_arg12 = 0,
                  ss_arg13 = 0, ss_arg14 = 1, ss_arg15 = 0\<rparr>
         in call (Call_EvalSchemeSwitchingSetup a)
           (\<lambda>s. s\<lparr>privateKeyFHEW := Some (snd (eSchemeSwitchingSetup eng cc a)),
                  serverCC := Some (cc\<lparr>cc_schSwch := Some a,
                                        cc_binCC := Some (fst (eSchemeSwitchingSetup eng cc a))\<rparr>)\<rparr>)),
       deref serverCC (\<lambda>cc. deref serverKP (\<lambda>kp. deref privateKeyFHEW (\<lambda>sk.
         EvalSchemeSwitchingKeyGen eng cc kp sk))),
       deref serverCC (\<lambda>cc. assign (\<lambda>s. s\<lparr>serverBinCC := cc_binCC cc\<rparr>)),
       deref serverCC (\<lambda>cc. assign (\<lambda>s. s\<lparr>swkFHEWtoCKKS := cc_swkFC cc\<rparr>)),
       assign (\<lambda>s. s\<lparr>vec := [1, 2, 3, 4]\<rparr>),
       with_val vec (\<lambda>v. emit (CoutVec ''Displaying data vector: '' v)),
       with_val vec (\<lambda>v. call (Call_MakeCKKSPackedPlaintext v) (\<lambda>s. s\<lparr>serverP := Some v\<rparr>)),
       deref serverP (\<lambda>p. emit (CoutVec ''Plaintext version of vector: '' p)),
       cout ''Plaintexts have been generated from complex-double vectors'',
       deref serverCC (\<lambda>cc. deref serverKP (\<lambda>kp. deref serverP (\<lambda>p.
         call (Call_Encrypt (publicKey kp) p)
           (\<lambda>s. s\<lparr>serverC := Some (eEncrypt eng cc (publicKey kp) p)\<rparr>)))),
       cout ''Ciphertext have been generated from Plaintext''
     ])"

text \<open>The body of the loop over the bootstrapping key map.\<close>

definition serialize_BTKeyMap_entry :: "engine \<Rightarrow> env \<Rightarrow> uint32 \<times> RingGSWBTKey \<Rightarrow> stmt" where
  "serialize_BTKeyMap_entry eng env it =
     (let index = fst it; thekey = snd it in
      block [
        if_not (SerializeToFile eng env (refreshKeyFile index) (ARingGSWACCKey (BSkey thekey)))
          (block [cerr ''Error serializing the refreshing key'', std_exit 1]),
        if_not (SerializeToFile eng env (ksKeyFile index) (ALWESwitchingKey (KSkey thekey)))
          (block [cerr ''Error serializing the switching key'', std_exit 1]),
        cout (''The BT map element for baseG = '' @ to_string (unat index)
              @ '' has been serialized.'')])"

definition server_serialize :: "engine \<Rightarrow> env \<Rightarrow> stmt list" where
  "server_serialize eng env =
     [
       demarcate ''Scheme Switching Part 2: Data Serialization (server)'',
       deref serverCC (\<lambda>cc.
         if_not (SerializeToFile eng env (DATAFOLDER @ ccLocation) (ACryptoContext cc))
           (block [cerr ''Error writing serialization of the crypto context to cryptocontext.txt'',
                   std_exit 1])),
       cout ''Cryptocontext serialized'',
       deref serverKP (\<lambda>kp.
         if_not (SerializeToFile eng env (DATAFOLDER @ pubKeyLocation) (APublicKey (publicKey kp)))
           (block [cerr ''Exception writing public key to pubkey.txt'', std_exit 1])),
       cout ''Public key serialized'',
       if_else (ofstream_is_open env (DATAFOLDER @ multKeyLocation))
         (block [
            with_val evalMultKeyMap (\<lambda>ks.
              if_not (SerializeToStream env (DATAFOLDER @ multKeyLocation) (AEvalMultKeys ks))
                (block [cerr ''Error writing eval mult keys'', std_exit 1])),
            cout ''EvalMult and relinearization keys have been serialized'',
            ofstream_close (DATAFOLDER @ multKeyLocation)])
         (block [cerr ''Error serializing EvalMult keys'', std_exit 1]),
       if_else (ofstream_is_open env (DATAFOLDER @ rotKeyLocation))
         (block [
            with_val evalAutomorphismKeyMap (\<lambda>ks.
              if_not (SerializeToStream env (DATAFOLDER @ rotKeyLocation) (AEvalAutomorphismKeys ks))
                (block [cerr ''Error writing rotation keys'', std_exit 1])),
            cout ''Rotation keys have been serialized''])
         (block [cerr ''Error serializing Rotation keys'', std_exit 1]),
       deref swkFHEWtoCKKS (\<lambda>swk.
         if_not (SerializeToFile eng env (DATAFOLDER @ FHEWtoCKKSKeyLocation) (ACiphertext swk))
           (block [cerr '' Error writing switching key'', std_exit 1])),
       deref serverC (\<lambda>c.
         if_not (SerializeToFile eng env (DATAFOLDER @ cipherLocation) (ACiphertext c))
           (block [cerr '' Error writing ciphertext'', std_exit 1])),
       deref serverBinCC (\<lambda>b.
         if_not (SerializeToFile eng env (DATAFOLDER @ binccLocation) (ABinFHEContext b))
           (block [cerr ''Error serializing the binfhe cryptocontext'', std_exit 1])),
       cout ''The binfhe cryptocontext has been serialized.'',
       deref serverBinCC (\<lambda>b.
         if_not (SerializeToFile eng env (DATAFOLDER @ btRkLocation) (ARingGSWACCKey (BSkey (BTKey b))))
           (block [cerr ''Error serializing the refreshing key'', std_exit 1])),
       cout ''The refreshing key has been serialized.'',
       deref serverBinCC (\<lambda>b.
         if_not (SerializeToFile eng env (DATAFOLDER @ btSwkLocation) (ALWESwitchingKey (KSkey (BTKey b))))
           (block [cerr ''Error serializing the switching key'', std_exit 1])),
       cout ''The key switching key has been serialized.'',
       deref serverBinCC (\<lambda>b. block (map (serialize_BTKeyMap_entry eng env) (BTKey_map b))),
       deref serverCC (\<lambda>cc. deref serverKP (\<lambda>kp. with_val vec (\<lambda>v.
         assign (\<lambda>s. s\<lparr>tupleCryptoContext_KeyPair := Some (cc, kp, int (length v))\<rparr>)))),
       ofstream_close (DATAFOLDER @ rotKeyLocation)
     ]"

definition serverSetupAndWrite ::
  "engine \<Rightarrow> env \<Rightarrow> uint32 \<Rightarrow> uint32 \<Rightarrow> uint32 \<Rightarrow> uint32 \<Rightarrow> uint32 \<Rightarrow> uint32 \<Rightarrow> bool \<Rightarrow> stmt" where
  "serverSetupAndWrite eng env ringDim batchSize multDepth scaleModSize firstModSize logQ_LWE oneHot =
     block (server_generate eng ringDim batchSize multDepth scaleModSize firstModSize logQ_LWE oneHot
            @ server_serialize eng env)"

text \<open>The body of the loop over \<^verbatim>\<open>baseGlist\<close>.\<close>

definition load_BTKeyMap_entry :: "env \<Rightarrow> uint32 list \<Rightarrow> nat \<Rightarrow> stmt" where
  "load_BTKeyMap_entry env bs i =
     block [
       if_not (DeserializeFromFile env (refreshKeyFile (bs ! i)) as_RingGSWACCKey
                 (\<lambda>v s. s\<lparr>refreshKey := v\<rparr>))
         (block [cerr ''Could not deserialize the refresh key'', std_exit 1]),
       if_not (DeserializeFromFile env (ksKeyFile (bs ! i)) as_LWESwitchingKey
                 (\<lambda>v s. s\<lparr>ksKey := v\<rparr>))
         (block [cerr ''Could not deserialize the switching key'', std_exit 1]),
       cout (''The BT map element for baseG = '' @ to_string (unat (bs ! i))
             @ '' has been deserialized.''),
       deref clientBinCC (\<lambda>b. with_val refreshKey (\<lambda>rk. with_val ksKey (\<lambda>ks.
         call (Call_BTKeyMapLoadSingleElement (bs ! i) \<lparr>BSkey = rk, KSkey = ks\<rparr>)
           (\<lambda>s. s\<lparr>clientBinCC :=
              Some (b\<lparr>BTKey_map :=
                map_insert (bs ! i) \<lparr>BSkey = rk, KSkey = ks\<rparr> (BTKey_map b)\<rparr>)\<rparr>))))]"

text \<open>
  \<^verbatim>\<open>clientProcess\<close>, in two parts: the reconstruction of the contexts and keys from the
  data folder (lines 305 to 411), and the evaluation with the serialization of its
  result (lines 413 to 434).
\<close>

definition client_reconstruct :: "env \<Rightarrow> stmt list" where
  "client_reconstruct env =
     [
       call Call_ClearEvalMultKeys (\<lambda>s. s\<lparr>evalMultKeyMap := []\<rparr>),
       call Call_ClearEvalSumKeys (\<lambda>s. s\<lparr>evalSumKeyMap := []\<rparr>),
       call Call_ClearEvalAutomorphismKeys (\<lambda>s. s\<lparr>evalAutomorphismKeyMap := []\<rparr>),
       call Call_ReleaseAllContexts (\<lambda>s. s\<lparr>allContexts := []\<rparr>),
       assign (\<lambda>s. s\<lparr>clientCC := None\<rparr>),
       if_not (DeserializeFromFile env (DATAFOLDER @ ccLocation) as_CryptoContext
                 (\<lambda>v s. s\<lparr>clientCC := Some v, allContexts := allContexts s @ [cc_parameters v]\<rparr>))
         (block [cerr (''I cannot read serialized data from: '' @ DATAFOLDER @ ccLocation),
                 std_exit 1]),
       cout ''Client CC deserialized'',
       assign (\<lambda>s. s\<lparr>clientPublicKey := None\<rparr>),
       if_not (DeserializeFromFile env (DATAFOLDER @ pubKeyLocation) as_PublicKey
                 (\<lambda>v s. s\<lparr>clientPublicKey := Some v\<rparr>))
         (block [cerr (''I cannot read serialized data from: '' @ DATAFOLDER @ pubKeyLocation),
                 std_exit 1]),
       cout ''Client KP deserialized'',
       if_not (ifstream_is_open env (DATAFOLDER @ multKeyLocation))
         (block [cerr (''Cannot read serialization from '' @ DATAFOLDER @ multKeyLocation),
                 std_exit 1]),
       if_not (DeserializeFromStream (DATAFOLDER @ multKeyLocation) as_EvalMultKeys
                 (\<lambda>v s. s\<lparr>evalMultKeyMap := evalMultKeyMap s @ v\<rparr>))
         (block [cerr ''Could not deserialize eval mult key file'', std_exit 1]),
       cout ''Deserialized eval mult keys'',
       if_not (ifstream_is_open env (DATAFOLDER @ rotKeyLocation))
         (block [cerr (''Cannot read serialization from '' @ DATAFOLDER @ multKeyLocation),
                 std_exit 1]),
       if_not (DeserializeFromStream (DATAFOLDER @ rotKeyLocation) as_EvalAutomorphismKeys
                 (\<lambda>v s. s\<lparr>evalAutomorphismKeyMap := evalAutomorphismKeyMap s @ v\<rparr>))
         (block [cerr ''Could not deserialize eval rot key file'', std_exit 1]),
       cout ''Deserialized rotation keys'',
       assign (\<lambda>s. s\<lparr>clientBinCC := None\<rparr>),
       if_not (DeserializeFromFile env (DATAFOLDER @ binccLocation) as_BinFHEContext
                 (\<lambda>v s. s\<lparr>clientBinCC := Some v\<rparr>))
         (block [cerr ''Could not deserialize the binfhe cryptocontext'', std_exit 1]),
       cout ''The cryptocontext has been deserialized.'',
       assign (\<lambda>s. s\<lparr>refreshKey := None\<rparr>),
       if_not (DeserializeFromFile env (DATAFOLDER @ btRkLocation) as_RingGSWACCKey
                 (\<lambda>v s. s\<lparr>refreshKey := v\<rparr>))
         (block [cerr ''Could not deserialize the refresh key'', std_exit 1]),
       cout ''The refresh key has been deserialized.'',
       assign (\<lambda>s. s\<lparr>ksKey := None\<rparr>),
       if_not (DeserializeFromFile env (DATAFOLDER @ btSwkLocation) as_LWESwitchingKey
                 (\<lambda>v s. s\<lparr>ksKey := v\<rparr>))
         (block [cerr ''Could not deserialize the switching key'', std_exit 1]),
       cout ''The switching key has been deserialized.'',
       assign (\<lambda>s. s\<lparr>baseGlist := [push_bit 18 1]\<rparr>),
       with_val baseGlist (\<lambda>bs. block (map (load_BTKeyMap_entry env bs) [0..<length bs])),
       deref clientBinCC (\<lambda>b. with_val refreshKey (\<lambda>rk. with_val ksKey (\<lambda>ks.
         call (Call_BTKeyLoad \<lparr>BSkey = rk, KSkey = ks\<rparr>)
           (\<lambda>s. s\<lparr>clientBinCC := Some (b\<lparr>BTKey := \<lparr>BSkey = rk, KSkey = ks\<rparr>\<rparr>)\<rparr>)))),
       deref clientCC (\<lambda>cc. deref clientBinCC (\<lambda>b.
         call (Call_SetBinCCForSchemeSwitch b)
           (\<lambda>s. s\<lparr>clientCC := Some (cc\<lparr>cc_binCC := Some b\<rparr>)\<rparr>))),
       assign (\<lambda>s. s\<lparr>client_swkFHEWtoCKKS := None\<rparr>),
       if_not (DeserializeFromFile env (DATAFOLDER @ FHEWtoCKKSKeyLocation) as_Ciphertext
                 (\<lambda>v s. s\<lparr>client_swkFHEWtoCKKS := Some v\<rparr>))
         (block [cerr (''Cannot read serialization from '' @ DATAFOLDER @ FHEWtoCKKSKeyLocation),
                 std_exit 1]),
       cout ''Deserialized switching key'',
       deref clientCC (\<lambda>cc. deref client_swkFHEWtoCKKS (\<lambda>swk.
         call (Call_SetSwkFC swk) (\<lambda>s. s\<lparr>clientCC := Some (cc\<lparr>cc_swkFC := Some swk\<rparr>)\<rparr>))),
       assign (\<lambda>s. s\<lparr>clientC := None\<rparr>),
       if_not (DeserializeFromFile env (DATAFOLDER @ cipherLocation) as_Ciphertext
                 (\<lambda>v s. s\<lparr>clientC := Some v\<rparr>))
         (block [cerr (''Cannot read serialization from '' @ DATAFOLDER @ cipherLocation),
                 std_exit 1]),
       cout ''Deserialized ciphertext''
     ]"

definition client_evaluate :: "engine \<Rightarrow> env \<Rightarrow> uint32 \<Rightarrow> stmt list" where
  "client_evaluate eng env modulus_LWE =
    (let scaleSign = (512 :: real) in
     [
       deref clientBinCC (\<lambda>b. assign (\<lambda>s. s\<lparr>beta := bin_beta b\<rparr>)),
       with_val beta (\<lambda>bt.
         if 2 * bt = 0 then crash
         else assign (\<lambda>s. s\<lparr>pLWE := ucast modulus_LWE div (2 * bt)\<rparr>)),
       deref clientCC (\<lambda>cc. with_val pLWE (\<lambda>p.
         let a = \<lparr>pre_pLWE = ucast p, pre_arg2 = 0, pre_scaleSign = scaleSign, pre_arg4 = False\<rparr>
         in call (Call_EvalCompareSwitchPrecompute a)
              (\<lambda>s. s\<lparr>clientCC := Some (cc\<lparr>cc_precompute := Some a\<rparr>)\<rparr>))),
       cout ''Done with precomputations'',
       deref clientCC (\<lambda>cc. deref clientC (\<lambda>c. deref clientPublicKey (\<lambda>pk.
         call (Call_EvalMinSchemeSwitching c pk (ct_slots c) (ct_slots c) 0 1)
           (\<lambda>s. s\<lparr>clientCiphertextArgmin :=
              eEvalMinSchemeSwitching eng cc c pk (ct_slots c) (ct_slots c) 0 1\<rparr>)))),
       cout ''Done with argmin computation'',
       demarcate ''Part 3.5: Client Serialization of data that has been operated on'',
       with_val clientCiphertextArgmin (\<lambda>cts.
         if length cts \<le> 1 then crash
         else expr_stmt (SerializeToFile eng env (DATAFOLDER @ cipherArgminLocation)
                           (ACiphertext (cts ! 1)))),
       cout ''Serialized ciphertext from client''
     ])"

definition clientProcess :: "engine \<Rightarrow> env \<Rightarrow> uint32 \<Rightarrow> stmt" where
  "clientProcess eng env modulus_LWE =
     block (client_reconstruct env @ client_evaluate eng env modulus_LWE)"

definition main :: "engine \<Rightarrow> env \<Rightarrow> stmt" where
  "main eng env =
    (let ringDim = (64 :: uint32);
         batchSize = (4 :: uint32);
         multDepth = (13 + of_nat (floorlog 2 (unat batchSize) - 1) :: uint32);
         logQ_ccLWE = (25 :: uint32);
         oneHot = True;
         scaleModSize = (50 :: uint32);
         firstModSize = (60 :: uint32)
     in block [
       cout (''This program requres the subdirectory `'' @ DATAFOLDER @ [CHR 0x27]
             @ '' to exist, otherwise you will get an error writing serializations.''),
       demarcate (''Scheme switching Part 1: Cryptocontext generation, key generation, data encryption ''
                  @ ''(server)''),
       serverSetupAndWrite eng env ringDim batchSize multDepth scaleModSize firstModSize logQ_ccLWE oneHot,
       demarcate ''Scheme switching Part 3: Client deserialize all data'',
       clientProcess eng env (push_bit (unat logQ_ccLWE) 1),
       demarcate ''Scheme switching Part 4: Server deserialization of data from client. '',
       deref tupleCryptoContext_KeyPair (\<lambda>(cc, kp, vectorSize).
         serverVerification eng env cc kp vectorSize),
       deref ArgminRes (\<lambda>r. emit (CoutVec [] r))
     ])"

subsection \<open>A concrete engine, environment and start state\<close>

text \<open>The first position of a least real part; the comparison argmin makes.\<close>

fun argmin :: "complex list \<Rightarrow> nat" where
  "argmin [] = 0"
| "argmin [x] = 0"
| "argmin (x # y # ys) =
     (let i = argmin (y # ys) in if Re x \<le> Re ((y # ys) ! i) then 0 else Suc i)"

definition one_hot :: "nat \<Rightarrow> nat \<Rightarrow> complex list" where
  "one_hot n i = map (\<lambda>j. if j = i then 1 else 0) [0..<n]"

definition key_number :: "PublicKeyImpl \<Rightarrow> nat" where
  "key_number pk = (case pk of PublicKeyImpl n \<Rightarrow> n)"

definition secret_number :: "PrivateKeyImpl \<Rightarrow> nat" where
  "secret_number sk = (case sk of PrivateKeyImpl n \<Rightarrow> n)"

definition null_BTKey :: RingGSWBTKey where
  "null_BTKey = \<lparr>BSkey = None, KSkey = None\<rparr>"

text \<open>
  Modelled from the spec: the crypto engine of section 6 as an ideal functionality,
  with exact values and no noise. The library itself is not among the sources.
  A key pair shares one number. Encryption keeps the encoded vector, filled up to
  the batch size, under the key's number, and decryption with the secret key of that
  number gives it back (section 8, round trip). The scheme-switching setup builds
  the secondary context from the preset, the flag and the modulus bits it is given;
  key generation gives it one bootstrapping bundle, also entered in the map under
  the preset's decomposition base, here \<open>2 ^ 18\<close>. The switching argmin needs the
  secondary context, the inter-scheme key and the precomputation to be attached
  (section 3, invariants) and returns a pair of ciphertexts: the minimum, and at
  index 1 the one-hot indicator of its position (section 4.3, step 8; section 9)
  when the setup asked for one-hot encoding, the position itself otherwise. Saving
  a context leaves out everything attached to it (section 4.1).
\<close>

definition ideal_engine :: engine where
  "ideal_engine =
     \<lparr>eKeyGen = (\<lambda>cc. \<lparr>publicKey = PublicKeyImpl 1, secretKey = PrivateKeyImpl 1\<rparr>),
      eSchemeSwitchingSetup = (\<lambda>cc a.
        (\<lparr>bin_paramset = ss_slBin a, bin_arbFunc = ss_arbFunc a, bin_logQ = ss_logQ_LWE a,
          bin_beta = 128, BTKey = null_BTKey, BTKey_map = []\<rparr>,
         LWEPrivateKeyImpl 1)),
      eSchemeSwitchingKeyGen = (\<lambda>cc kp sk.
        \<lparr>gen_BTKey = \<lparr>BSkey = Some (RingGSWACCKeyImpl 1), KSkey = Some (LWESwitchingKeyImpl 1)\<rparr>,
         gen_BTKey_map =
           [(push_bit 18 1,
             \<lparr>BSkey = Some (RingGSWACCKeyImpl 1), KSkey = Some (LWESwitchingKeyImpl 1)\<rparr>)],
         gen_swkFC = \<lparr>ct_keyTag = key_number (publicKey kp), ct_slots = 0, ct_payload = []\<rparr>,
         gen_evalMultKeys = [EvalKeyImpl 1],
         gen_evalSumKeys = [],
         gen_evalAutomorphismKeys = [EvalKeyImpl 2, EvalKeyImpl 3]\<rparr>),
      eEncrypt = (\<lambda>cc pk pt.
        \<lparr>ct_keyTag = key_number pk, ct_slots = p_batchSize (cc_parameters cc),
         ct_payload = SetLength (unat (p_batchSize (cc_parameters cc))) pt\<rparr>),
      eDecrypt = (\<lambda>cc sk ct. if secret_number sk = ct_keyTag ct then ct_payload ct else []),
      eEvalMinSchemeSwitching = (\<lambda>cc c pk numValues numSlots a b.
        if cc_binCC cc = None \<or> cc_swkFC cc = None \<or> cc_precompute cc = None \<or> ct_payload c = []
        then []
        else let xs = take (unat numValues) (ct_payload c); i = argmin xs in
          [c\<lparr>ct_keyTag := key_number pk, ct_payload := SetLength (unat numSlots) [xs ! i]\<rparr>,
           c\<lparr>ct_keyTag := key_number pk,
             ct_payload :=
               (if map_option ss_oneHot (cc_schSwch cc) = Some True
                then SetLength (unat numSlots) (one_hot (length xs) i)
                else SetLength (unat numSlots) [of_nat i])\<rparr>]),
      eSaveCC = (\<lambda>cc. cc\<lparr>cc_binCC := None, cc_swkFC := None, cc_precompute := None\<rparr>),
      eSaveBinCC = (\<lambda>b. b\<lparr>BTKey := null_BTKey, BTKey_map := []\<rparr>)\<rparr>"

text \<open>An environment in which every file operation succeeds.\<close>

definition env_ok :: env where
  "env_ok = \<lparr>out_ok = (\<lambda>p. True), in_ok = (\<lambda>p. True), stream_ok = (\<lambda>p. True)\<rparr>"

text \<open>A process at its start: running, an empty data folder, empty registries.\<close>

definition start :: state where
  "start =
     \<lparr>status = Running, files = Map.empty, pending = Map.empty, evalMultKeyMap = [],
      evalSumKeyMap = [],
      evalAutomorphismKeyMap = [], allContexts = [],
      parameters = \<lparr>p_multiplicativeDepth = 1, p_securityLevel = HEStd_128_classic,
                    p_ringDim = 0, p_batchSize = 0, p_scalingModSize = 0,
                    p_firstModSize = 0, p_scalingTechnique = FLEXIBLEAUTOEXT\<rparr>,
      serverCC = None, serverKP = None, privateKeyFHEW = None, serverBinCC = None,
      swkFHEWtoCKKS = None, vec = [], serverP = None, serverC = None, clientCC = None,
      clientPublicKey = None, clientBinCC = None, refreshKey = None, ksKey = None,
      baseGlist = [], client_swkFHEWtoCKKS = None, clientC = None, beta = 0, pLWE = 0,
      clientCiphertextArgmin = [], serverCiphertextFromClient_Argmin = None,
      serverPlaintextFromClient_Argmin = None, tupleCryptoContext_KeyPair = None,
      ArgminRes = None\<rparr>"

subsection \<open>Reading a run\<close>

text \<open>Console output is not part of what a role does to its peers.\<close>

definition is_console :: "event \<Rightarrow> bool" where
  "is_console e = (case e of Cout _ \<Rightarrow> True | CoutVec _ _ \<Rightarrow> True | _ \<Rightarrow> False)"

definition actions :: "event list \<Rightarrow> event list" where
  "actions es = filter (\<lambda>e. \<not> is_console e) es"

text \<open>The objects handed to a serializer, with the file, in the order of the calls.\<close>

definition packs :: "event list \<Rightarrow> (string \<times> artifact) list" where
  "packs es = concat (map (\<lambda>e. case e of Pack p a ok \<Rightarrow> [(p, a)] | _ \<Rightarrow> []) es)"

definition is_pack :: "event \<Rightarrow> bool" where
  "is_pack e = (case e of Pack _ _ _ \<Rightarrow> True | _ \<Rightarrow> False)"

definition is_failed_pack :: "event \<Rightarrow> bool" where
  "is_failed_pack e = (case e of Pack _ _ ok \<Rightarrow> \<not> ok | _ \<Rightarrow> False)"

definition is_unpack :: "event \<Rightarrow> bool" where
  "is_unpack e = (case e of Unpack _ _ \<Rightarrow> True | IfstreamOpen _ _ \<Rightarrow> True | _ \<Rightarrow> False)"

definition is_diagnostic :: "event \<Rightarrow> bool" where
  "is_diagnostic e = (case e of Cerr _ \<Rightarrow> True | Exit _ \<Rightarrow> True | _ \<Rightarrow> False)"

text \<open>
  An event hands a secret key of the primary scheme to its callee: a serializer given
  one, the scheme-switching key generation (it takes the key pair), a decryption.
\<close>

definition secret_use :: "event \<Rightarrow> bool" where
  "secret_use e =
     (case e of
        Pack _ a _ \<Rightarrow> (case a of APrivateKey _ \<Rightarrow> True | _ \<Rightarrow> False)
      | Call_EvalSchemeSwitchingKeyGen _ _ \<Rightarrow> True
      | Call_Decrypt _ _ \<Rightarrow> True
      | _ \<Rightarrow> False)"

definition is_keygen :: "event \<Rightarrow> bool" where
  "is_keygen e = (case e of Call_EvalSchemeSwitchingKeyGen _ _ \<Rightarrow> True | _ \<Rightarrow> False)"

definition is_encrypt :: "event \<Rightarrow> bool" where
  "is_encrypt e = (case e of Call_Encrypt _ _ \<Rightarrow> True | _ \<Rightarrow> False)"

definition is_decrypt :: "event \<Rightarrow> bool" where
  "is_decrypt e = (case e of Call_Decrypt _ _ \<Rightarrow> True | _ \<Rightarrow> False)"

definition gen_context_calls :: "event list \<Rightarrow> CCParams list" where
  "gen_context_calls es =
     concat (map (\<lambda>e. case e of Call_GenCryptoContext p \<Rightarrow> [p] | _ \<Rightarrow> []) es)"

definition setup_calls :: "event list \<Rightarrow> SchSwchParams list" where
  "setup_calls es =
     concat (map (\<lambda>e. case e of Call_EvalSchemeSwitchingSetup a \<Rightarrow> [a] | _ \<Rightarrow> []) es)"

text \<open>The steps that load bootstrapping keys: their unpacking and the two load calls.\<close>

definition is_bootstrap_step :: "event \<Rightarrow> bool" where
  "is_bootstrap_step e =
     (case e of
        Unpack _ (Some (ARingGSWACCKey _)) \<Rightarrow> True
      | Unpack _ (Some (ALWESwitchingKey _)) \<Rightarrow> True
      | Call_BTKeyMapLoadSingleElement _ _ \<Rightarrow> True
      | Call_BTKeyLoad _ \<Rightarrow> True
      | _ \<Rightarrow> False)"

definition loaded_bases :: "event list \<Rightarrow> uint32 list" where
  "loaded_bases es =
     concat (map (\<lambda>e. case e of Call_BTKeyMapLoadSingleElement b _ \<Rightarrow> [b] | _ \<Rightarrow> []) es)"

definition unpacked_files :: "event list \<Rightarrow> string list" where
  "unpacked_files es =
     concat (map (\<lambda>e. case e of Unpack p _ \<Rightarrow> [p] | _ \<Rightarrow> []) es)"

text \<open>Every event a statement, or a condition, can cause satisfies a predicate.\<close>

definition emits :: "stmt \<Rightarrow> (event \<Rightarrow> bool) \<Rightarrow> bool" where
  "emits c P = (\<forall>s. list_all P (fst (c s)))"

definition emits_cond :: "cond \<Rightarrow> (event \<Rightarrow> bool) \<Rightarrow> bool" where
  "emits_cond b P = (\<forall>s. list_all P (fst (snd (b s))))"

text \<open>
  What the client finds in the data folder when every file it reads is there: the
  objects by the variable they are unpacked into, the two keys of base \<open>2 ^ 18\<close> apart.
\<close>

record blobs =
  b_cc :: CryptoContextImpl
  b_publicKey :: PublicKeyImpl
  b_evalMultKeys :: "EvalKeyImpl list"
  b_evalAutomorphismKeys :: "EvalKeyImpl list"
  b_binCC :: BinFHEContext
  b_refreshKey :: RingGSWACCKey
  b_ksKey :: LWESwitchingKey
  b_base_refreshKey :: RingGSWACCKey
  b_base_ksKey :: LWESwitchingKey
  b_swkFC :: CiphertextImpl
  b_ciphertext :: CiphertextImpl

definition readable :: "env \<Rightarrow> state \<Rightarrow> string \<Rightarrow> artifact \<Rightarrow> bool" where
  "readable env s path a = (in_ok env path \<and> files s path = Some a)"

definition holds :: "env \<Rightarrow> state \<Rightarrow> blobs \<Rightarrow> bool" where
  "holds env s B =
     (readable env s (DATAFOLDER @ ccLocation) (ACryptoContext (b_cc B))
      \<and> readable env s (DATAFOLDER @ pubKeyLocation) (APublicKey (b_publicKey B))
      \<and> readable env s (DATAFOLDER @ multKeyLocation) (AEvalMultKeys (b_evalMultKeys B))
      \<and> readable env s (DATAFOLDER @ rotKeyLocation) (AEvalAutomorphismKeys (b_evalAutomorphismKeys B))
      \<and> readable env s (DATAFOLDER @ binccLocation) (ABinFHEContext (b_binCC B))
      \<and> readable env s (DATAFOLDER @ btRkLocation) (ARingGSWACCKey (b_refreshKey B))
      \<and> readable env s (DATAFOLDER @ btSwkLocation) (ALWESwitchingKey (b_ksKey B))
      \<and> readable env s (refreshKeyFile 262144) (ARingGSWACCKey (b_base_refreshKey B))
      \<and> readable env s (ksKeyFile 262144) (ALWESwitchingKey (b_base_ksKey B))
      \<and> readable env s (DATAFOLDER @ FHEWtoCKKSKeyLocation) (ACiphertext (b_swkFC B))
      \<and> readable env s (DATAFOLDER @ cipherLocation) (ACiphertext (b_ciphertext B)))"

subsection \<open>What the claims speak of\<close>

text \<open>The four calls that clear the process-wide registries, in the order of the source.\<close>

definition clears :: "event list" where
  "clears = [Call_ClearEvalMultKeys, Call_ClearEvalSumKeys, Call_ClearEvalAutomorphismKeys,
             Call_ReleaseAllContexts]"

text \<open>Every write succeeds.\<close>

definition all_ok :: "env \<Rightarrow> bool" where
  "all_ok env = ((\<forall>p. out_ok env p) \<and> (\<forall>p. stream_ok env p))"

text \<open>
  The serializations of the server in the order of the source: nine objects, then two
  files for each entry of the bootstrapping key map.
\<close>

definition fixed_packs ::
  "state \<Rightarrow> CryptoContextImpl \<Rightarrow> KeyPair \<Rightarrow> CiphertextImpl \<Rightarrow> CiphertextImpl \<Rightarrow> BinFHEContext
    \<Rightarrow> (string \<times> artifact) list" where
  "fixed_packs s cc kp swk c b =
     [(DATAFOLDER @ ccLocation, ACryptoContext cc),
      (DATAFOLDER @ pubKeyLocation, APublicKey (publicKey kp)),
      (DATAFOLDER @ multKeyLocation, AEvalMultKeys (evalMultKeyMap s)),
      (DATAFOLDER @ rotKeyLocation, AEvalAutomorphismKeys (evalAutomorphismKeyMap s)),
      (DATAFOLDER @ FHEWtoCKKSKeyLocation, ACiphertext swk),
      (DATAFOLDER @ cipherLocation, ACiphertext c),
      (DATAFOLDER @ binccLocation, ABinFHEContext b),
      (DATAFOLDER @ btRkLocation, ARingGSWACCKey (BSkey (BTKey b))),
      (DATAFOLDER @ btSwkLocation, ALWESwitchingKey (KSkey (BTKey b)))]"

definition entry_packs :: "uint32 \<times> RingGSWBTKey \<Rightarrow> (string \<times> artifact) list" where
  "entry_packs it =
     [(refreshKeyFile (fst it), ARingGSWACCKey (BSkey (snd it))),
      (ksKeyFile (fst it), ALWESwitchingKey (KSkey (snd it)))]"

definition is_generation :: "event \<Rightarrow> bool" where
  "is_generation e =
     (case e of Call_GenCryptoContext _ \<Rightarrow> True | Call_EvalSchemeSwitchingSetup _ \<Rightarrow> True
      | _ \<Rightarrow> False)"

definition is_map_load :: "event \<Rightarrow> bool" where
  "is_map_load e = (case e of Call_BTKeyMapLoadSingleElement _ _ \<Rightarrow> True | _ \<Rightarrow> False)"

definition is_precompute :: "event \<Rightarrow> bool" where
  "is_precompute e = (case e of Call_EvalCompareSwitchPrecompute _ \<Rightarrow> True | _ \<Rightarrow> False)"

definition is_evalmin :: "event \<Rightarrow> bool" where
  "is_evalmin e = (case e of Call_EvalMinSchemeSwitching _ _ _ _ _ _ \<Rightarrow> True | _ \<Rightarrow> False)"

text \<open>The precomputation and the argmin evaluation, in the order they are called.\<close>

definition comparison_steps :: "event list \<Rightarrow> event list" where
  "comparison_steps es = filter (\<lambda>e. is_precompute e \<or> is_evalmin e) es"

definition bootstrap_steps :: "event list \<Rightarrow> event list" where
  "bootstrap_steps es = filter is_bootstrap_step es"

text \<open>The uses of a secret key and the serializations, in the order they happen.\<close>

definition key_and_transport_steps :: "event list \<Rightarrow> event list" where
  "key_and_transport_steps es = filter (\<lambda>e. secret_use e \<or> is_pack e) es"

text \<open>
  What the client has reconstructed when every file was there: the bundle made of the
  two keys of base \<open>2 ^ 18\<close>, the secondary context with that bundle in its map and as
  its default, and the primary context with the secondary context and the
  inter-scheme key attached.
\<close>

definition loaded_BTKey :: "blobs \<Rightarrow> RingGSWBTKey" where
  "loaded_BTKey B = \<lparr>BSkey = b_base_refreshKey B, KSkey = b_base_ksKey B\<rparr>"

definition reconstructed_binCC :: "blobs \<Rightarrow> BinFHEContext" where
  "reconstructed_binCC B =
     (b_binCC B)\<lparr>BTKey_map := map_insert 262144 (loaded_BTKey B) (BTKey_map (b_binCC B)),
                BTKey := loaded_BTKey B\<rparr>"

definition reconstructed_cc :: "blobs \<Rightarrow> CryptoContextImpl" where
  "reconstructed_cc B =
     (b_cc B)\<lparr>cc_binCC := Some (reconstructed_binCC B), cc_swkFC := Some (b_swkFC B)\<rparr>"

definition reconstruct_actions :: "blobs \<Rightarrow> event list" where
  "reconstruct_actions B =
     clears @
      [Unpack (DATAFOLDER @ ccLocation) (Some (ACryptoContext (b_cc B))),
       Unpack (DATAFOLDER @ pubKeyLocation) (Some (APublicKey (b_publicKey B))),
       IfstreamOpen (DATAFOLDER @ multKeyLocation) True,
       Unpack (DATAFOLDER @ multKeyLocation) (Some (AEvalMultKeys (b_evalMultKeys B))),
       IfstreamOpen (DATAFOLDER @ rotKeyLocation) True,
       Unpack (DATAFOLDER @ rotKeyLocation) (Some (AEvalAutomorphismKeys (b_evalAutomorphismKeys B))),
       Unpack (DATAFOLDER @ binccLocation) (Some (ABinFHEContext (b_binCC B))),
       Unpack (DATAFOLDER @ btRkLocation) (Some (ARingGSWACCKey (b_refreshKey B))),
       Unpack (DATAFOLDER @ btSwkLocation) (Some (ALWESwitchingKey (b_ksKey B))),
       Unpack (refreshKeyFile 262144) (Some (ARingGSWACCKey (b_base_refreshKey B))),
       Unpack (ksKeyFile 262144) (Some (ALWESwitchingKey (b_base_ksKey B))),
       Call_BTKeyMapLoadSingleElement 262144 (loaded_BTKey B),
       Call_BTKeyLoad (loaded_BTKey B),
       Call_SetBinCCForSchemeSwitch (reconstructed_binCC B),
       Unpack (DATAFOLDER @ FHEWtoCKKSKeyLocation) (Some (ACiphertext (b_swkFC B))),
       Call_SetSwkFC (b_swkFC B),
       Unpack (DATAFOLDER @ cipherLocation) (Some (ACiphertext (b_ciphertext B)))]"


subsection \<open>Concrete runs\<close>

text \<open>A data folder holding the given objects and nothing else.\<close>

definition folder_of :: "blobs \<Rightarrow> string \<rightharpoonup> artifact" where
  "folder_of B =
     [DATAFOLDER @ ccLocation \<mapsto> ACryptoContext (b_cc B),
      DATAFOLDER @ pubKeyLocation \<mapsto> APublicKey (b_publicKey B),
      DATAFOLDER @ multKeyLocation \<mapsto> AEvalMultKeys (b_evalMultKeys B),
      DATAFOLDER @ rotKeyLocation \<mapsto> AEvalAutomorphismKeys (b_evalAutomorphismKeys B),
      DATAFOLDER @ binccLocation \<mapsto> ABinFHEContext (b_binCC B),
      DATAFOLDER @ btRkLocation \<mapsto> ARingGSWACCKey (b_refreshKey B),
      DATAFOLDER @ btSwkLocation \<mapsto> ALWESwitchingKey (b_ksKey B),
      refreshKeyFile 262144 \<mapsto> ARingGSWACCKey (b_base_refreshKey B),
      ksKeyFile 262144 \<mapsto> ALWESwitchingKey (b_base_ksKey B),
      DATAFOLDER @ FHEWtoCKKSKeyLocation \<mapsto> ACiphertext (b_swkFC B),
      DATAFOLDER @ cipherLocation \<mapsto> ACiphertext (b_ciphertext B)]"

text \<open>
  The objects of the run of \<^verbatim>\<open>main\<close> with the concrete engine: the parameters, the
  arguments of the scheme-switching setup, the key pair, the bootstrapping bundle,
  the secondary context once its keys are generated, the primary context at the end
  of the generation, and the encryption of the sample vector.
\<close>

definition params0 :: CCParams where
  "params0 =
     \<lparr>p_multiplicativeDepth = 15, p_securityLevel = HEStd_NotSet, p_ringDim = 64,
      p_batchSize = 4, p_scalingModSize = 50, p_firstModSize = 60,
      p_scalingTechnique = FLEXIBLEAUTO\<rparr>"

definition schSwch0 :: SchSwchParams where
  "schSwch0 =
     \<lparr>ss_sl = HEStd_NotSet, ss_slBin = TOY, ss_arbFunc = False, ss_logQ_LWE = 25,
      ss_arg5 = False, ss_arg6 = 4, ss_arg7 = 4, ss_arg8 = True, ss_oneHot = True,
      ss_arg10 = False, ss_arg11 = 27, ss_arg12 = 0, ss_arg13 = 0, ss_arg14 = 1,
      ss_arg15 = 0\<rparr>"

definition kp0 :: KeyPair where
  "kp0 = \<lparr>publicKey = PublicKeyImpl 1, secretKey = PrivateKeyImpl 1\<rparr>"

definition BTKey0 :: RingGSWBTKey where
  "BTKey0 = \<lparr>BSkey = Some (RingGSWACCKeyImpl 1), KSkey = Some (LWESwitchingKeyImpl 1)\<rparr>"

definition binCC0 :: BinFHEContext where
  "binCC0 =
     \<lparr>bin_paramset = TOY, bin_arbFunc = False, bin_logQ = 25, bin_beta = 128,
      BTKey = BTKey0, BTKey_map = [(262144, BTKey0)]\<rparr>"

definition swk0 :: CiphertextImpl where
  "swk0 = \<lparr>ct_keyTag = 1, ct_slots = 0, ct_payload = []\<rparr>"

definition cc0 :: CryptoContextImpl where
  "cc0 =
     \<lparr>cc_parameters = params0,
      cc_enabled = {PKE, KEYSWITCH, LEVELEDSHE, ADVANCEDSHE, FHE, SCHEMESWITCH},
      cc_schSwch = Some schSwch0, cc_binCC = Some binCC0, cc_swkFC = Some swk0,
      cc_precompute = None\<rparr>"

definition ct0 :: CiphertextImpl where
  "ct0 = \<lparr>ct_keyTag = 1, ct_slots = 4, ct_payload = [1, 2, 3, 4]\<rparr>"

text \<open>What the server of that run leaves in the data folder for the client.\<close>

definition blobs0 :: blobs where
  "blobs0 =
     \<lparr>b_cc = eSaveCC ideal_engine cc0,
      b_publicKey = publicKey kp0,
      b_evalMultKeys = [EvalKeyImpl 1],
      b_evalAutomorphismKeys = [EvalKeyImpl 2, EvalKeyImpl 3],
      b_binCC = eSaveBinCC ideal_engine binCC0,
      b_refreshKey = BSkey BTKey0,
      b_ksKey = KSkey BTKey0,
      b_base_refreshKey = BSkey BTKey0,
      b_base_ksKey = KSkey BTKey0,
      b_swkFC = swk0,
      b_ciphertext = ct0\<rparr>"

definition client0 :: state where
  "client0 = start\<lparr>files := folder_of blobs0\<rparr>"

text \<open>
  A data folder in which the two files of base \<open>2 ^ 18\<close> hold other keys than the two
  files of the default bundle.
\<close>

definition blobs1 :: blobs where
  "blobs1 =
     blobs0\<lparr>b_base_refreshKey := Some (RingGSWACCKeyImpl 2),
            b_base_ksKey := Some (LWESwitchingKeyImpl 2)\<rparr>"

definition client1 :: state where
  "client1 = start\<lparr>files := folder_of blobs1\<rparr>"

text \<open>
  An engine whose key generation fills the bootstrapping key map for two
  decomposition bases, \<open>2 ^ 18\<close> and \<open>2 ^ 27\<close>.
\<close>

definition two_base_engine :: engine where
  "two_base_engine =
     ideal_engine\<lparr>eSchemeSwitchingKeyGen := (\<lambda>cc kp sk.
       (eSchemeSwitchingKeyGen ideal_engine cc kp sk)
         \<lparr>gen_BTKey_map :=
            [(262144, BTKey0),
             (134217728,
              \<lparr>BSkey = Some (RingGSWACCKeyImpl 2), KSkey = Some (LWESwitchingKeyImpl 2)\<rparr>)]\<rparr>)\<rparr>"

text \<open>An environment in which only the result ciphertext cannot be written.\<close>

definition env_no_result :: env where
  "env_no_result = env_ok\<lparr>out_ok := (\<lambda>p. p \<noteq> DATAFOLDER @ cipherArgminLocation)\<rparr>"

text \<open>The data folder of the concrete run without the file of the rotation keys.\<close>

definition client_no_rot :: state where
  "client_no_rot = start\<lparr>files := (folder_of blobs0)(DATAFOLDER @ rotKeyLocation := None)\<rparr>"

text \<open>
  A result ciphertext of eight slots in the data folder of the verifying server, the
  sample vector having four elements.
\<close>

definition result8 :: CiphertextImpl where
  "result8 = \<lparr>ct_keyTag = 1, ct_slots = 8, ct_payload = [1, 0, 0, 0, 0, 0, 0, 0]\<rparr>"

definition verifier0 :: state where
  "verifier0 = start\<lparr>files := [DATAFOLDER @ cipherArgminLocation \<mapsto> ACiphertext result8]\<rparr>"

text \<open>
  The statements of \<^verbatim>\<open>main\<close> up to the end of the server's generation, with the
  arguments \<^verbatim>\<open>main\<close> gives to the server.
\<close>

definition main_setup :: "engine \<Rightarrow> stmt list" where
  "main_setup eng =
     [cout (''This program requres the subdirectory `'' @ DATAFOLDER @ [CHR 0x27]
            @ '' to exist, otherwise you will get an error writing serializations.''),
      demarcate (''Scheme switching Part 1: Cryptocontext generation, key generation, data encryption ''
                 @ ''(server)'')]
     @ server_generate eng 64 4 15 50 60 25 True"

text \<open>An environment in which only the inter-scheme switching key cannot be written.\<close>

definition env_no_swk :: env where
  "env_no_swk = env_ok\<lparr>out_ok := (\<lambda>p. p \<noteq> DATAFOLDER @ FHEWtoCKKSKeyLocation)\<rparr>"

text \<open>A state with the four process-wide registries emptied.\<close>

definition cleared :: "state \<Rightarrow> state" where
  "cleared s =
     s\<lparr>evalMultKeyMap := [], evalSumKeyMap := [], evalAutomorphismKeyMap := [],
       allContexts := []\<rparr>"

text \<open>
  The client of the concrete run in a process whose registries still hold the keys and
  the context of an earlier run.
\<close>

definition client_used :: state where
  "client_used =
     client0\<lparr>evalMultKeyMap := [EvalKeyImpl 7], evalSumKeyMap := [EvalKeyImpl 8],
             evalAutomorphismKeyMap := [EvalKeyImpl 9], allContexts := [params0]\<rparr>"

section \<open>Properties\<close>

subsection \<open>Sequencing\<close>

lemma block_not_running: "status s \<noteq> Running \<Longrightarrow> block cs s = ([], s)"
  by (cases cs) simp_all

lemma block_append:
  "block (cs @ ds) s = (let (es, s') = block cs s; (es', s'') = block ds s' in (es @ es', s''))"
proof (induction cs arbitrary: s)
  case Nil
  then show ?case by (simp split: prod.splits)
next
  case (Cons c cs)
  then show ?case
    by (simp add: block_not_running split: prod.splits)
qed

lemma block_flatten: "block (block cs # ds) = block (cs @ ds)"
  by (rule ext) (simp add: block_append block_not_running split: prod.splits)

lemma block_Cons_call:
  "status s = Running \<Longrightarrow>
   block (call e f # cs) s = (e # fst (block cs (f s)), snd (block cs (f s)))"
  by (simp add: call_def split: prod.splits)

lemmas exec_defs = skip_def emit_def assign_def call_def cout_def cerr_def std_exit_def crash_def
  if_else_def if_not_def expr_stmt_def with_val_def deref_def SerializeToFile_def
  DeserializeFromFile_def ofstream_is_open_def ifstream_is_open_def SerializeToStream_def
  DeserializeFromStream_def demarcate_def Enable_def EvalSchemeSwitchingKeyGen_def
  GenCryptoContext_def ofstream_close_def Decrypt_def

lemmas path_defs = DATAFOLDER_def ccLocation_def pubKeyLocation_def multKeyLocation_def
  rotKeyLocation_def binccLocation_def btRkLocation_def btSwkLocation_def
  FHEWtoCKKSKeyLocation_def cipherLocation_def cipherArgminLocation_def refreshKeyFile_def
  ksKeyFile_def

lemmas ideal_defs = ideal_engine_def env_ok_def start_def null_BTKey_def key_number_def
  secret_number_def one_hot_def SetLength_def

lemmas object_defs = params0_def schSwch0_def kp0_def BTKey0_def binCC0_def swk0_def cc0_def
  ct0_def

subsection \<open>What a statement can emit\<close>

named_theorems emits_intros

lemma emits_fst: "emits c P \<Longrightarrow> list_all P (fst (c s))"
  by (simp add: emits_def)

lemma emits_block [emits_intros]: "list_all (\<lambda>c. emits c P) cs \<Longrightarrow> emits (block cs) P"
  unfolding emits_def
proof (induction cs)
  case Nil
  then show ?case by simp
next
  case (Cons c cs)
  then show ?case by (auto split: prod.splits simp: list_all_iff) (metis fst_conv)+
qed

lemma emits_block_map: "(\<And>x. emits (f x) P) \<Longrightarrow> emits (block (map f xs)) P"
  by (rule emits_block) (simp add: list_all_iff)

lemma emits_skip [emits_intros]: "emits skip P"
  by (simp add: emits_def skip_def)

lemma emits_assign [emits_intros]: "emits (assign f) P"
  by (simp add: emits_def assign_def)

lemma emits_crash [emits_intros]: "emits crash P"
  by (simp add: emits_def crash_def)

lemma emits_emit [emits_intros]: "P e \<Longrightarrow> emits (emit e) P"
  by (simp add: emits_def emit_def)

lemma emits_call [emits_intros]: "P e \<Longrightarrow> emits (call e f) P"
  by (simp add: emits_def call_def)

lemma emits_cout [emits_intros]: "P (Cout msg) \<Longrightarrow> emits (cout msg) P"
  by (simp add: emits_def cout_def emit_def)

lemma emits_cerr [emits_intros]: "P (Cerr msg) \<Longrightarrow> emits (cerr msg) P"
  by (simp add: emits_def cerr_def emit_def)

lemma emits_std_exit [emits_intros]: "P (Exit n) \<Longrightarrow> emits (std_exit n) P"
  by (simp add: emits_def std_exit_def)

lemma emits_if_else [emits_intros]:
  "emits_cond b P \<Longrightarrow> emits c1 P \<Longrightarrow> emits c2 P \<Longrightarrow> emits (if_else b c1 c2) P"
  unfolding emits_def emits_cond_def if_else_def
  by (auto split: prod.splits) (metis fst_conv snd_conv)+

lemma emits_if_not [emits_intros]: "emits_cond b P \<Longrightarrow> emits c P \<Longrightarrow> emits (if_not b c) P"
  by (simp add: if_not_def emits_if_else emits_skip)

lemma emits_expr_stmt [emits_intros]: "emits_cond b P \<Longrightarrow> emits (expr_stmt b) P"
  unfolding emits_def emits_cond_def expr_stmt_def
  by (auto split: prod.splits) (metis fst_conv snd_conv)

lemma emits_with_val [emits_intros]: "(\<And>x. emits (c x) P) \<Longrightarrow> emits (with_val f c) P"
  by (simp add: emits_def with_val_def)

lemma emits_deref [emits_intros]: "(\<And>x. emits (c x) P) \<Longrightarrow> emits (deref p c) P"
  by (simp add: emits_def deref_def crash_def split: option.splits)

lemma emits_if [emits_intros]: "emits c1 P \<Longrightarrow> emits c2 P \<Longrightarrow> emits (if b then c1 else c2) P"
  by simp

lemma emits_demarcate [emits_intros]: "(\<And>m. P (Cout m)) \<Longrightarrow> emits (demarcate msg) P"
  by (simp add: demarcate_def emits_block emits_cout)

lemma emits_SerializeToFile [emits_intros]:
  "(\<And>ok. P (Pack path a ok)) \<Longrightarrow> emits_cond (SerializeToFile eng env path a) P"
  by (simp add: emits_cond_def SerializeToFile_def)

lemma emits_SerializeToStream [emits_intros]:
  "(\<And>ok. P (Pack path a ok)) \<Longrightarrow> emits_cond (SerializeToStream env path a) P"
  by (simp add: emits_cond_def SerializeToStream_def)

lemma emits_DeserializeFromFile [emits_intros]:
  "(\<And>x. P (Unpack path x)) \<Longrightarrow> emits_cond (DeserializeFromFile env path decode store) P"
  by (simp add: emits_cond_def DeserializeFromFile_def split: option.splits)

lemma emits_DeserializeFromStream [emits_intros]:
  "(\<And>x. P (Unpack path x)) \<Longrightarrow> emits_cond (DeserializeFromStream path decode store) P"
  by (simp add: emits_cond_def DeserializeFromStream_def split: option.splits)

lemma emits_ofstream_close [emits_intros]:
  "emits (ofstream_close path) P"
  by (simp add: emits_def ofstream_close_def split: option.split)

lemma emits_Decrypt [emits_intros]:
  "(\<And>c. P (Call_Decrypt sk c)) \<Longrightarrow> emits (Decrypt eng cc sk c store) P"
  by (cases c) (simp_all add: emits_def Decrypt_def emit_def call_def crash_def)

lemma emits_ofstream [emits_intros]:
  "(\<And>ok. P (OfstreamOpen path ok)) \<Longrightarrow> emits_cond (ofstream_is_open env path) P"
  by (simp add: emits_cond_def ofstream_is_open_def)

lemma emits_ifstream [emits_intros]:
  "(\<And>ok. P (IfstreamOpen path ok)) \<Longrightarrow> emits_cond (ifstream_is_open env path) P"
  by (simp add: emits_cond_def ifstream_is_open_def Let_def)

lemma emits_Enable [emits_intros]: "P (Call_Enable f) \<Longrightarrow> emits (Enable f) P"
  by (simp add: Enable_def emits_deref emits_call)

lemma emits_KeyGen [emits_intros]:
  "P (Call_EvalSchemeSwitchingKeyGen kp sk) \<Longrightarrow> emits (EvalSchemeSwitchingKeyGen eng cc kp sk) P"
  by (simp add: EvalSchemeSwitchingKeyGen_def emits_call)

lemmas event_preds = is_console_def is_pack_def is_unpack_def is_diagnostic_def secret_use_def
  is_keygen_def is_encrypt_def is_decrypt_def is_generation_def is_map_load_def
  is_bootstrap_step_def is_precompute_def is_evalmin_def is_failed_pack_def

subsection \<open>Projections of a run\<close>

lemma packs_append: "packs (xs @ ys) = packs xs @ packs ys"
  by (simp add: packs_def)

lemma calls_append:
  "gen_context_calls (xs @ ys) = gen_context_calls xs @ gen_context_calls ys"
  "setup_calls (xs @ ys) = setup_calls xs @ setup_calls ys"
  by (simp_all add: gen_context_calls_def setup_calls_def)

lemma loaded_bases_append: "loaded_bases (xs @ ys) = loaded_bases xs @ loaded_bases ys"
  by (simp add: loaded_bases_def)

lemma bootstrap_steps_append: "bootstrap_steps (xs @ ys) = bootstrap_steps xs @ bootstrap_steps ys"
  by (simp add: bootstrap_steps_def)

lemma comparison_steps_append:
  "comparison_steps (xs @ ys) = comparison_steps xs @ comparison_steps ys"
  by (simp add: comparison_steps_def)

lemma no_generation_calls:
  "list_all (\<lambda>e. \<not> is_generation e) es \<Longrightarrow> gen_context_calls es = [] \<and> setup_calls es = []"
  by (induction es)
    (auto simp: gen_context_calls_def setup_calls_def is_generation_def split: event.splits)

lemma no_map_load: "list_all (\<lambda>e. \<not> is_map_load e) es \<Longrightarrow> loaded_bases es = []"
  by (induction es) (auto simp: loaded_bases_def is_map_load_def split: event.splits)

lemma filter_actions:
  assumes "\<And>e. P e \<Longrightarrow> \<not> is_console e"
  shows "filter P (actions es) = filter P es"
  unfolding actions_def filter_filter
  by (rule filter_cong) (use assms in auto)

lemma comparison_steps_actions: "comparison_steps (actions es) = comparison_steps es"
  unfolding comparison_steps_def
  by (rule filter_actions)
    (auto simp: is_precompute_def is_evalmin_def is_console_def split: event.splits)

lemma bootstrap_steps_actions: "bootstrap_steps (actions es) = bootstrap_steps es"
  unfolding bootstrap_steps_def
  by (rule filter_actions) (auto simp: is_bootstrap_step_def is_console_def split: event.splits)

lemma diagnostics_actions: "filter is_diagnostic (actions es) = filter is_diagnostic es"
  by (rule filter_actions) (auto simp: is_diagnostic_def is_console_def split: event.splits)

lemma loaded_bases_actions: "loaded_bases (actions es) = loaded_bases es"
  by (induction es) (auto simp: loaded_bases_def actions_def is_console_def split: event.splits)

lemma list_all_filter_weaken:
  assumes "list_all P xs" "\<And>e. P e \<Longrightarrow> Q e \<Longrightarrow> R e"
  shows "list_all R (filter Q xs)"
  using assms by (auto simp: list_all_iff)

lemma filter_none: "list_all (\<lambda>e. \<not> P e) xs \<Longrightarrow> filter P xs = []"
  by (simp add: list_all_iff filter_empty_conv)

lemma map_of_map_insert: "map_of (map_insert k v m) = (map_of m)(k \<mapsto> v)"
  by (induction m) (auto simp: fun_eq_iff)

subsection \<open>Machine arithmetic of the precision\<close>

lemma twice_beta:
  fixes \<beta> :: uint64
  assumes "0 < unat \<beta>" "unat \<beta> < 2 ^ 63"
  shows "unat (2 * \<beta>) = 2 * unat \<beta>" and "2 * \<beta> \<noteq> 0"
proof -
  have "unat (2 * \<beta>) = (unat (2 :: uint64) * unat \<beta>) mod 2 ^ 64"
    by (simp add: unat_word_ariths)
  also have "\<dots> = 2 * unat \<beta>"
    using assms(2) by simp
  finally show u: "unat (2 * \<beta>) = 2 * unat \<beta>" .
  show "2 * \<beta> \<noteq> 0"
  proof
    assume "2 * \<beta> = 0"
    then have "unat (2 * \<beta>) = 0" by simp
    with u assms(1) show False by simp
  qed
qed

lemma pLWE_value:
  fixes m :: uint32 and \<beta> :: uint64
  assumes "0 < unat \<beta>" "unat \<beta> < 2 ^ 63"
  shows "unat (ucast (ucast m div (2 * \<beta>) :: uint64) :: uint32) = unat m div (2 * unat \<beta>)"
proof -
  have lt: "unat m < 2 ^ 32"
    using unsigned_less [of m, where ?'a = nat] by simp
  have m: "unat (ucast m :: uint64) = unat m"
    using lt by (simp add: unsigned_ucast_eq take_bit_eq_mod)
  have "unat (ucast m div (2 * \<beta>) :: uint64) = unat m div (2 * unat \<beta>)"
    by (simp add: unat_div m twice_beta(1) [OF assms])
  moreover have "unat m div (2 * unat \<beta>) \<le> unat m"
    by (rule div_le_dividend)
  then have "unat m div (2 * unat \<beta>) < 2 ^ 32"
    using lt by linarith
  ultimately show ?thesis
    by (simp add: unsigned_ucast_eq take_bit_eq_mod)
qed

subsection \<open>File names\<close>

lemma to_string_base: "to_string 262144 = ''262144''"
  by (simp add: digit_char_def)

lemma to_string_base2: "to_string 134217728 = ''134217728''"
  by (simp add: digit_char_def)

lemma base_value: "push_bit 18 (1 :: uint32) = 262144"
  by simp

lemma holds_folder:
  assumes "\<And>p. in_ok env p"
  shows "holds env (s\<lparr>files := folder_of B\<rparr>) B"
  using assms
  by (simp add: holds_def readable_def folder_of_def path_defs to_string_base)

subsection \<open>The server\<close>

lemma server_generate_run:
  assumes "status s = Running"
  shows "\<exists>cc kp swk b.
     status (snd (block (server_generate eng rd bs md sm fm lq oh) s)) = Running
   \<and> serverCC (snd (block (server_generate eng rd bs md sm fm lq oh) s)) = Some cc
   \<and> serverKP (snd (block (server_generate eng rd bs md sm fm lq oh) s)) = Some kp
   \<and> swkFHEWtoCKKS (snd (block (server_generate eng rd bs md sm fm lq oh) s)) = Some swk
   \<and> serverC (snd (block (server_generate eng rd bs md sm fm lq oh) s))
       = Some (eEncrypt eng cc (publicKey kp) [1, 2, 3, 4])
   \<and> serverBinCC (snd (block (server_generate eng rd bs md sm fm lq oh) s)) = Some b
   \<and> vec (snd (block (server_generate eng rd bs md sm fm lq oh) s)) = [1, 2, 3, 4]
   \<and> cc_swkFC cc = Some swk \<and> cc_binCC cc = Some b"
  using assms by (simp add: server_generate_def exec_defs Let_def)

lemma server_generate_calls:
  assumes "status s = Running"
  shows "map p_securityLevel (gen_context_calls (fst (block (server_generate eng rd bs md sm fm lq oh) s)))
           = [HEStd_NotSet]
       \<and> map (\<lambda>a. (ss_sl a, ss_slBin a, ss_arbFunc a))
            (setup_calls (fst (block (server_generate eng rd bs md sm fm lq oh) s)))
           = [(HEStd_NotSet, TOY, False)]
       \<and> packs (fst (block (server_generate eng rd bs md sm fm lq oh) s)) = []"
  using assms
  by (simp add: server_generate_def exec_defs Let_def packs_def gen_context_calls_def
      setup_calls_def)

lemma serialize_entry_emits:
  "emits (serialize_BTKeyMap_entry eng env it)
     (\<lambda>e. \<not> secret_use e \<and> \<not> is_generation e \<and> \<not> is_encrypt e)"
  unfolding serialize_BTKeyMap_entry_def Let_def
  by (rule emits_intros conjI TrueI | simp only: list.pred_inject
      | (simp add: event_preds; fail))+

lemma server_serialize_emits:
  "emits (block (server_serialize eng env))
     (\<lambda>e. \<not> secret_use e \<and> \<not> is_generation e \<and> \<not> is_encrypt e)"
  unfolding server_serialize_def
  by (rule emits_intros conjI TrueI emits_block_map serialize_entry_emits
      | simp only: list.pred_inject | (simp add: event_preds; fail))+

lemma serialize_entry_ok:
  assumes "status s = Running" "all_ok env"
  shows "packs (fst (serialize_BTKeyMap_entry eng env it s)) = entry_packs it
       \<and> snd (serialize_BTKeyMap_entry eng env it s)
          = s\<lparr>files := files (snd (serialize_BTKeyMap_entry eng env it s))\<rparr>"
  using assms
  by (simp add: serialize_BTKeyMap_entry_def exec_defs Let_def packs_def entry_packs_def all_ok_def)

lemma serialize_loop_ok:
  assumes "status s = Running" "all_ok env"
  shows "packs (fst (block (map (serialize_BTKeyMap_entry eng env) xs) s)) = concat (map entry_packs xs)
       \<and> snd (block (map (serialize_BTKeyMap_entry eng env) xs) s)
          = s\<lparr>files := files (snd (block (map (serialize_BTKeyMap_entry eng env) xs) s))\<rparr>"
  using assms(1)
proof (induction xs arbitrary: s)
  case Nil
  then show ?case by (simp add: packs_def)
next
  case (Cons x xs)
  obtain es s1 where 1: "serialize_BTKeyMap_entry eng env x s = (es, s1)"
    by (cases "serialize_BTKeyMap_entry eng env x s")
  from serialize_entry_ok [OF Cons.prems assms(2), of eng x] 1
  have P: "packs es = entry_packs x" and F: "s1 = s\<lparr>files := files s1\<rparr>" by simp_all
  have r: "status s1 = Running" using Cons.prems by (subst F) simp
  obtain es' s2 where 2: "block (map (serialize_BTKeyMap_entry eng env) xs) s1 = (es', s2)"
    by (cases "block (map (serialize_BTKeyMap_entry eng env) xs) s1")
  from Cons.IH [OF r] 2
  have Q: "packs es' = concat (map entry_packs xs)" and G: "s2 = s1\<lparr>files := files s2\<rparr>"
    by simp_all
  have "s2 = s\<lparr>files := files s2\<rparr>" by (subst G, subst F) simp
  then show ?case
    using Cons.prems 1 2 P Q by (simp add: packs_append)
qed

lemma server_serialize_fixed:
  assumes "status s = Running" "all_ok env"
    and "serverCC s = Some cc" "serverKP s = Some kp" "swkFHEWtoCKKS s = Some swk"
    and "serverC s = Some c" "serverBinCC s = Some b"
  shows "packs (fst (block (take 15 (server_serialize eng env)) s)) = fixed_packs s cc kp swk c b
       \<and> snd (block (take 15 (server_serialize eng env)) s)
          = s\<lparr>files := files (snd (block (take 15 (server_serialize eng env)) s)),
              pending := pending (snd (block (take 15 (server_serialize eng env)) s))\<rparr>"
  using assms
  by (simp add: server_serialize_def exec_defs Let_def packs_def fixed_packs_def all_ok_def)

lemma server_serialize_run:
  assumes "status s = Running" "all_ok env"
    and "serverCC s = Some cc" "serverKP s = Some kp" "swkFHEWtoCKKS s = Some swk"
    and "serverC s = Some c" "serverBinCC s = Some b"
  shows "packs (fst (block (server_serialize eng env) s))
           = fixed_packs s cc kp swk c b @ concat (map entry_packs (BTKey_map b))
       \<and> snd (block (server_serialize eng env) s)
          = s\<lparr>files := files (snd (block (server_serialize eng env) s)),
              pending := pending (snd (block (server_serialize eng env) s)),
              tupleCryptoContext_KeyPair := Some (cc, kp, int (length (vec s)))\<rparr>"
proof -
  let ?pre = "take 15 (server_serialize eng env)"
  let ?loop = "block (map (serialize_BTKeyMap_entry eng env) (BTKey_map b))"
  let ?ret = "\<lambda>s'. s'\<lparr>tupleCryptoContext_KeyPair := Some (cc, kp, int (length (vec s)))\<rparr>"
  let ?rot = "DATAFOLDER @ rotKeyLocation"
  obtain e1 s1 where 1: "block ?pre s = (e1, s1)" by (cases "block ?pre s")
  from server_serialize_fixed [OF assms, of eng] 1
  have P1: "packs e1 = fixed_packs s cc kp swk c b"
    and F1: "s1 = s\<lparr>files := files s1, pending := pending s1\<rparr>"
    by simp_all
  have r1: "status s1 = Running" using assms(1) by (subst F1) simp
  obtain e2 s2 where 2: "?loop s1 = (e2, s2)" by (cases "?loop s1")
  from serialize_loop_ok [OF r1 assms(2), of eng "BTKey_map b"] 2
  have P2: "packs e2 = concat (map entry_packs (BTKey_map b))"
    and F2: "s2 = s1\<lparr>files := files s2\<rparr>"
    by simp_all
  have ps: "pending s2 = pending s1" by (subst F2) simp
  have F3: "s2 = s\<lparr>files := files s2, pending := pending s2\<rparr>"
    by (subst F2, subst F1) (simp add: ps)
  have loc: "serverBinCC s1 = Some b" using assms(7) by (subst F1) simp
  have loc2: "status s2 = Running" "serverCC s2 = Some cc" "serverKP s2 = Some kp" "vec s2 = vec s"
    using assms by (subst F3, simp)+
  have rest: "drop 15 (server_serialize eng env) =
      [deref serverBinCC (\<lambda>b. block (map (serialize_BTKeyMap_entry eng env) (BTKey_map b))),
       deref serverCC (\<lambda>cc. deref serverKP (\<lambda>kp. with_val vec (\<lambda>v.
         assign (\<lambda>s. s\<lparr>tupleCryptoContext_KeyPair := Some (cc, kp, int (length v))\<rparr>)))),
       ofstream_close ?rot]"
    by (simp add: server_serialize_def)
  have 3: "block (drop 15 (server_serialize eng env)) s1
           = (e2, snd (ofstream_close ?rot (?ret s2)))"
    unfolding rest using r1 loc 2 loc2
    by (simp add: deref_def with_val_def assign_def ofstream_close_def split: option.split)
  have "block (server_serialize eng env) s = block (?pre @ drop 15 (server_serialize eng env)) s"
    by simp
  also have "\<dots> = (e1 @ e2, snd (ofstream_close ?rot (?ret s2)))"
    unfolding block_append using 1 3 by simp
  finally have run: "block (server_serialize eng env) s
      = (e1 @ e2, snd (ofstream_close ?rot (?ret s2)))" .
  have "snd (ofstream_close ?rot (?ret s2))
        = s\<lparr>files := files (snd (ofstream_close ?rot (?ret s2))),
            pending := pending (snd (ofstream_close ?rot (?ret s2))),
            tupleCryptoContext_KeyPair := Some (cc, kp, int (length (vec s)))\<rparr>"
    by (subst (1 2 3) F3) (simp add: ofstream_close_def split: option.split)
  then show ?thesis
    using run P1 P2 by (simp add: packs_append)
qed

text \<open>
  The run of the server when every write succeeds: it returns the context, the key
  pair and the length of the sample vector, and has serialized the objects it
  generated in the order of \<open>fixed_packs\<close> and \<open>entry_packs\<close>.
\<close>

lemma server_run_ok:
  assumes "status s = Running" and "all_ok env"
  shows "\<exists>cc kp swk c b.
      status (snd (serverSetupAndWrite eng env rd bs md sm fm lq oh s)) = Running
    \<and> tupleCryptoContext_KeyPair (snd (serverSetupAndWrite eng env rd bs md sm fm lq oh s))
        = Some (cc, kp, 4)
    \<and> serverCC (snd (block (server_generate eng rd bs md sm fm lq oh) s)) = Some cc
    \<and> cc_swkFC cc = Some swk \<and> cc_binCC cc = Some b
    \<and> c = eEncrypt eng cc (publicKey kp) [1, 2, 3, 4]
    \<and> packs (fst (serverSetupAndWrite eng env rd bs md sm fm lq oh s))
        = fixed_packs (snd (serverSetupAndWrite eng env rd bs md sm fm lq oh s)) cc kp swk c b
          @ concat (map entry_packs (BTKey_map b))"
proof -
  let ?gen = "server_generate eng rd bs md sm fm lq oh"
  obtain e1 s1 where 1: "block ?gen s = (e1, s1)" by (cases "block ?gen s")
  obtain e2 s2 where 2: "block (server_serialize eng env) s1 = (e2, s2)"
    by (cases "block (server_serialize eng env) s1")
  have run: "serverSetupAndWrite eng env rd bs md sm fm lq oh s = (e1 @ e2, s2)"
    by (simp add: serverSetupAndWrite_def block_append 1 2)
  from server_generate_run [OF assms(1), of eng rd bs md sm fm lq oh] 1
  obtain cc kp swk b where g: "status s1 = Running" "serverCC s1 = Some cc" "serverKP s1 = Some kp"
    "swkFHEWtoCKKS s1 = Some swk" "serverC s1 = Some (eEncrypt eng cc (publicKey kp) [1, 2, 3, 4])"
    "serverBinCC s1 = Some b" "vec s1 = [1, 2, 3, 4]" "cc_swkFC cc = Some swk" "cc_binCC cc = Some b"
    by auto
  from server_generate_calls [OF assms(1), of eng rd bs md sm fm lq oh] 1
  have p1: "packs e1 = []" by simp
  let ?c = "eEncrypt eng cc (publicKey kp) [1, 2, 3, 4]"
  from server_serialize_run [OF g(1) assms(2) g(2,3,4,5,6), of eng] 2
  have p2: "packs e2 = fixed_packs s1 cc kp swk ?c b @ concat (map entry_packs (BTKey_map b))"
    and f2: "s2 = s1\<lparr>files := files s2, pending := pending s2,
                     tupleCryptoContext_KeyPair := Some (cc, kp, int (length (vec s1)))\<rparr>"
    by simp_all
  have st: "status s2 = Running" "tupleCryptoContext_KeyPair s2 = Some (cc, kp, 4)"
    "evalMultKeyMap s2 = evalMultKeyMap s1" "evalAutomorphismKeyMap s2 = evalAutomorphismKeyMap s1"
    using g(1,7) by (subst f2, simp)+
  have "fixed_packs s2 cc kp swk ?c b = fixed_packs s1 cc kp swk ?c b"
    by (simp add: fixed_packs_def st)
  with run 1 p1 p2 st g(2,8,9) show ?thesis
    by (simp add: packs_append)
qed

text \<open>
  The stream of the rotation keys is never closed by the server: the keys reach the
  file when the server returns, and not when it exits after a later write has failed.
  The stream of the relinearization keys is closed at once.
\<close>

lemma rotation_keys_reach_file_on_return:
  "files (snd (serverSetupAndWrite ideal_engine env_ok 64 4 15 50 60 25 True start))
     (DATAFOLDER @ rotKeyLocation) = Some (AEvalAutomorphismKeys [EvalKeyImpl 2, EvalKeyImpl 3])
   \<and> status (snd (serverSetupAndWrite ideal_engine env_no_swk 64 4 15 50 60 25 True start))
       = Exited 1
   \<and> files (snd (serverSetupAndWrite ideal_engine env_no_swk 64 4 15 50 60 25 True start))
       (DATAFOLDER @ multKeyLocation) = Some (AEvalMultKeys [EvalKeyImpl 1])
   \<and> files (snd (serverSetupAndWrite ideal_engine env_no_swk 64 4 15 50 60 25 True start))
       (DATAFOLDER @ rotKeyLocation) = Some AEmptyFile"
  by (simp add: serverSetupAndWrite_def server_generate_def server_serialize_def
      serialize_BTKeyMap_entry_def exec_defs path_defs ideal_defs env_no_swk_def
      to_string_base compute_floorlog Let_def)


lemma server_generate_two_base:
  "map_option (map fst \<circ> BTKey_map)
     (serverBinCC (snd (block (server_generate two_base_engine 64 4 15 50 60 25 True) start)))
   = Some [262144, 134217728]"
  by (simp add: server_generate_def exec_defs Let_def ideal_defs object_defs two_base_engine_def)

subsection \<open>The client\<close>

lemma clears_run:
  "status s = Running \<Longrightarrow> block (take 4 (client_reconstruct env)) s = (clears, cleared s)"
  by (simp add: client_reconstruct_def call_def clears_def cleared_def)

lemma client_starts_with_clears:
  assumes "status s = Running"
  shows "\<exists>x rest. fst (clientProcess eng env m s)
           = clears @ Unpack (DATAFOLDER @ ccLocation) x # rest"
proof -
  have a: "\<And>f cs s. status s = Running \<Longrightarrow> block (assign f # cs) s = block cs (f s)"
    by (simp add: assign_def split: prod.splits)
  have d: "\<And>p dec st c cs s. status s = Running \<Longrightarrow>
      \<exists>x rest. fst (block (if_not (DeserializeFromFile env p dec st) c # cs) s) = Unpack p x # rest"
    by (simp add: if_not_def if_else_def DeserializeFromFile_def skip_def
        split: option.splits prod.splits)
  show ?thesis
    using assms
    unfolding clientProcess_def client_reconstruct_def append.simps clears_def
    by (simp add: block_Cons_call a d del: block.simps)
qed

lemma client_emits:
  "emits (clientProcess eng env m)
     (\<lambda>e. \<not> secret_use e \<and> \<not> is_generation e \<and> \<not> is_encrypt e)"
proof -
  have ent: "\<And>bs i. emits (load_BTKeyMap_entry env bs i)
      (\<lambda>e. \<not> secret_use e \<and> \<not> is_generation e \<and> \<not> is_encrypt e)"
    unfolding load_BTKeyMap_entry_def
    by (rule emits_intros conjI TrueI | simp only: list.pred_inject
        | (simp add: event_preds; fail))+
  show ?thesis
    unfolding clientProcess_def client_reconstruct_def client_evaluate_def Let_def append.simps
    by (rule emits_intros conjI TrueI emits_block_map ent
        | simp only: list.pred_inject | (simp add: event_preds; fail))+
qed

lemma client_evaluate_emits:
  "emits (block (client_evaluate eng env m))
     (\<lambda>e. \<not> is_map_load e \<and> \<not> is_bootstrap_step e \<and> \<not> is_diagnostic e)"
  unfolding client_evaluate_def Let_def
  by (rule emits_intros conjI TrueI | simp only: list.pred_inject
      | (simp add: event_preds; fail))+

lemma client_reconstruct_run:
  assumes "status s = Running" "holds env s B"
  shows "actions (fst (block (client_reconstruct env) s)) = reconstruct_actions B
    \<and> snd (block (client_reconstruct env) s) =
      s\<lparr>evalMultKeyMap := b_evalMultKeys B, evalSumKeyMap := [],
        evalAutomorphismKeyMap := b_evalAutomorphismKeys B,
        allContexts := [cc_parameters (b_cc B)],
        clientCC := Some (reconstructed_cc B),
        clientPublicKey := Some (b_publicKey B),
        clientBinCC := Some (reconstructed_binCC B),
        refreshKey := b_base_refreshKey B, ksKey := b_base_ksKey B,
        baseGlist := [262144],
        client_swkFHEWtoCKKS := Some (b_swkFC B),
        clientC := Some (b_ciphertext B)\<rparr>"
  using assms
  by (simp add: client_reconstruct_def load_BTKeyMap_entry_def exec_defs Let_def actions_def
      is_console_def clears_def holds_def readable_def base_value loaded_BTKey_def
      reconstructed_binCC_def reconstructed_cc_def reconstruct_actions_def)

lemma client_reconstruct_state:
  assumes "status s = Running" "holds env s B"
  shows "status (snd (block (client_reconstruct env) s)) = Running"
    "clientBinCC (snd (block (client_reconstruct env) s)) = Some (reconstructed_binCC B)"
    "clientCC (snd (block (client_reconstruct env) s)) = Some (reconstructed_cc B)"
    "clientC (snd (block (client_reconstruct env) s)) = Some (b_ciphertext B)"
    "clientPublicKey (snd (block (client_reconstruct env) s)) = Some (b_publicKey B)"
    "files (snd (block (client_reconstruct env) s)) = files s"
  using client_reconstruct_run [OF assms] assms(1) by simp_all

lemma client_evaluate_steps:
  assumes "status s = Running" "clientBinCC s = Some b" "clientCC s = Some cc"
    and "clientC s = Some c" "clientPublicKey s = Some pk" "2 * bin_beta b \<noteq> 0"
  shows "comparison_steps (fst (block (client_evaluate eng env m) s)) =
     [Call_EvalCompareSwitchPrecompute
        \<lparr>pre_pLWE = ucast (ucast m div (2 * bin_beta b) :: uint64), pre_arg2 = 0,
         pre_scaleSign = 512, pre_arg4 = False\<rparr>,
      Call_EvalMinSchemeSwitching c pk (ct_slots c) (ct_slots c) 0 1]"
  using assms
  by (simp add: client_evaluate_def exec_defs Let_def comparison_steps_def is_precompute_def
      is_evalmin_def)

lemma client_evaluate_frame:
  "clientBinCC (snd (block (client_evaluate eng env m) s)) = clientBinCC s"
  by (simp add: client_evaluate_def exec_defs Let_def split: option.splits)

lemma client_before_loop:
  "emits (block (take 25 (client_reconstruct env))) (\<lambda>e. \<not> is_map_load e)"
  apply (simp add: client_reconstruct_def)
  by (rule emits_intros conjI TrueI | simp only: list.pred_inject
      | (simp add: is_map_load_def; fail))+

lemma client_loop_bases:
  "list_all (\<lambda>b. b = 262144)
     (loaded_bases (fst (block (take 2 (drop 25 (client_reconstruct env))) s)))"
  by (simp add: client_reconstruct_def load_BTKeyMap_entry_def exec_defs Let_def loaded_bases_def
      split: option.splits)

lemma client_after_loop:
  "emits (block (drop 27 (client_reconstruct env) @ client_evaluate eng env m))
     (\<lambda>e. \<not> is_map_load e)"
  apply (simp add: client_reconstruct_def client_evaluate_def)
  by (rule emits_intros conjI TrueI | simp only: list.pred_inject Let_def
      | (simp add: is_map_load_def; fail))+

text \<open>Whatever the data folder holds, the client loads no base but \<open>2 ^ 18\<close> into the map.\<close>

lemma client_only_fixed_base:
  "list_all (\<lambda>b. b = 262144) (loaded_bases (fst (clientProcess eng env m s)))"
proof -
  let ?xs = "client_reconstruct env"
  let ?A = "take 25 ?xs"
  let ?B = "take 2 (drop 25 ?xs)"
  let ?C = "drop 27 ?xs @ client_evaluate eng env m"
  have a: "drop 27 ?xs = drop 2 (drop 25 ?xs)" by simp
  have "?xs = ?A @ (?B @ drop 2 (drop 25 ?xs))"
    by (simp only: append_take_drop_id)
  then have split: "?xs @ client_evaluate eng env m = ?A @ ?B @ ?C"
    unfolding a by (metis append.assoc)
  obtain e1 s1 where 1: "block ?A s = (e1, s1)" by (cases "block ?A s")
  obtain e2 s2 where 2: "block ?B s1 = (e2, s2)" by (cases "block ?B s1")
  obtain e3 s3 where 3: "block ?C s2 = (e3, s3)" by (cases "block ?C s2")
  have run: "fst (clientProcess eng env m s) = e1 @ e2 @ e3"
    unfolding clientProcess_def split
    by (simp only: block_append [of ?A] block_append [of ?B] 1 2 3 Let_def prod.case fst_conv)
  have "loaded_bases e1 = []"
    using emits_fst [OF client_before_loop, of env s] 1 no_map_load by simp
  moreover have "loaded_bases e3 = []"
    using emits_fst [OF client_after_loop, of env eng m s2] 3 no_map_load by simp
  moreover have "list_all (\<lambda>b. b = 262144) (loaded_bases e2)"
    using client_loop_bases [of env s1] 2 by simp
  ultimately show ?thesis
    by (simp add: run loaded_bases_append)
qed

lemma client_run:
  "\<exists>e1 s1 e2 s2.
      clientProcess eng env m s = (e1 @ e2, s2)
    \<and> block (client_reconstruct env) s = (e1, s1)
    \<and> block (client_evaluate eng env m) s1 = (e2, s2)"
proof -
  obtain e1 s1 where 1: "block (client_reconstruct env) s = (e1, s1)"
    by (cases "block (client_reconstruct env) s")
  obtain e2 s2 where 2: "block (client_evaluate eng env m) s1 = (e2, s2)"
    by (cases "block (client_evaluate eng env m) s1")
  have "clientProcess eng env m s = (e1 @ e2, s2)"
    by (simp add: clientProcess_def block_append 1 2)
  with 1 2 show ?thesis by blast
qed

text \<open>
  The steps of the client that load bootstrapping keys when every file is there, and
  the secondary context they leave.
\<close>

lemma client_bootstrap_run:
  assumes "status s = Running" "holds env s B"
  shows "bootstrap_steps (fst (clientProcess eng env m s)) =
     [Unpack (DATAFOLDER @ btRkLocation) (Some (ARingGSWACCKey (b_refreshKey B))),
      Unpack (DATAFOLDER @ btSwkLocation) (Some (ALWESwitchingKey (b_ksKey B))),
      Unpack (refreshKeyFile 262144) (Some (ARingGSWACCKey (b_base_refreshKey B))),
      Unpack (ksKeyFile 262144) (Some (ALWESwitchingKey (b_base_ksKey B))),
      Call_BTKeyMapLoadSingleElement 262144 (loaded_BTKey B),
      Call_BTKeyLoad (loaded_BTKey B)]
   \<and> loaded_bases (fst (clientProcess eng env m s)) = [262144]
   \<and> clientBinCC (snd (clientProcess eng env m s)) = Some (reconstructed_binCC B)"
proof -
  obtain e1 s1 e2 s2 where
    run: "clientProcess eng env m s = (e1 @ e2, s2)"
    and 1: "block (client_reconstruct env) s = (e1, s1)"
    and 2: "block (client_evaluate eng env m) s1 = (e2, s2)"
    using client_run by blast
  have a: "actions e1 = reconstruct_actions B"
    using client_reconstruct_run [OF assms] 1 by simp
  have st: "clientBinCC s1 = Some (reconstructed_binCC B)"
    using client_reconstruct_state(2) [OF assms] 1 by simp
  have "bootstrap_steps (actions e1) =
     [Unpack (DATAFOLDER @ btRkLocation) (Some (ARingGSWACCKey (b_refreshKey B))),
      Unpack (DATAFOLDER @ btSwkLocation) (Some (ALWESwitchingKey (b_ksKey B))),
      Unpack (refreshKeyFile 262144) (Some (ARingGSWACCKey (b_base_refreshKey B))),
      Unpack (ksKeyFile 262144) (Some (ALWESwitchingKey (b_base_ksKey B))),
      Call_BTKeyMapLoadSingleElement 262144 (loaded_BTKey B),
      Call_BTKeyLoad (loaded_BTKey B)]"
    unfolding a
    by (simp add: reconstruct_actions_def bootstrap_steps_def is_bootstrap_step_def clears_def)
  then have b1: "bootstrap_steps e1 =
     [Unpack (DATAFOLDER @ btRkLocation) (Some (ARingGSWACCKey (b_refreshKey B))),
      Unpack (DATAFOLDER @ btSwkLocation) (Some (ALWESwitchingKey (b_ksKey B))),
      Unpack (refreshKeyFile 262144) (Some (ARingGSWACCKey (b_base_refreshKey B))),
      Unpack (ksKeyFile 262144) (Some (ALWESwitchingKey (b_base_ksKey B))),
      Call_BTKeyMapLoadSingleElement 262144 (loaded_BTKey B),
      Call_BTKeyLoad (loaded_BTKey B)]"
    by (simp add: bootstrap_steps_actions)
  have "loaded_bases (actions e1) = [262144]"
    unfolding a by (simp add: reconstruct_actions_def loaded_bases_def clears_def)
  then have l1: "loaded_bases e1 = [262144]"
    by (simp add: loaded_bases_actions)
  from emits_fst [OF client_evaluate_emits, of eng env m s1] 2
  have e2: "list_all (\<lambda>e. \<not> is_map_load e \<and> \<not> is_bootstrap_step e \<and> \<not> is_diagnostic e) e2"
    by simp
  have b2: "bootstrap_steps e2 = []"
    unfolding bootstrap_steps_def using e2 by (auto intro!: filter_none simp: list_all_iff)
  have l2: "loaded_bases e2 = []"
    using e2 by (auto intro!: no_map_load simp: list_all_iff)
  have "clientBinCC s2 = Some (reconstructed_binCC B)"
    using client_evaluate_frame [of eng env m s1] 2 st by simp
  then show ?thesis
    by (simp add: run bootstrap_steps_append loaded_bases_append b1 b2 l1 l2)
qed

subsection \<open>The whole run\<close>

lemma main_split:
  "main eng env =
     block (main_setup eng
            @ (server_serialize eng env
               @ [demarcate ''Scheme switching Part 3: Client deserialize all data'',
                  clientProcess eng env 33554432,
                  demarcate ''Scheme switching Part 4: Server deserialization of data from client. ''])
            @ [deref tupleCryptoContext_KeyPair (\<lambda>(cc, kp, vectorSize).
                 serverVerification eng env cc kp vectorSize),
               deref ArgminRes (\<lambda>r. emit (CoutVec [] r))])"
proof -
  have fl: "13 + of_nat (floorlog 2 (unat (4 :: uint32)) - 1) = (15 :: uint32)"
    by (simp add: compute_floorlog)
  have pb: "push_bit (unat (25 :: uint32)) (1 :: uint32) = 33554432"
    by simp
  have nest: "\<And>xs cs ds. block (xs @ block cs # ds) = block (xs @ cs @ ds)"
    by (rule ext) (simp add: block_append block_flatten)
  show ?thesis
    unfolding main_def main_setup_def Let_def fl pb serverSetupAndWrite_def
    using nest [of "[_, _]"] by simp
qed

text \<open>
  A run of \<^verbatim>\<open>main\<close> has three phases: up to the end of the generation nothing is
  serialized, and a secret key goes into the key generation only; then, through the
  server's serialization and the client, no secret key is used and nothing is
  encrypted; in the verification nothing is serialized or encrypted, and a secret key
  goes into the decryption only.
\<close>

lemma main_phases:
  "\<exists>ys zs. fst (main eng env s)
       = fst (block (main_setup eng) s) @ ys @ zs
     \<and> list_all (\<lambda>e. \<not> is_pack e \<and> (secret_use e \<longrightarrow> is_keygen e))
         (fst (block (main_setup eng) s))
     \<and> list_all (\<lambda>e. \<not> secret_use e \<and> \<not> is_encrypt e) ys
     \<and> list_all (\<lambda>e. \<not> is_pack e \<and> \<not> is_encrypt e \<and> (secret_use e \<longrightarrow> is_decrypt e)) zs"
proof -
  let ?A = "main_setup eng"
  let ?B = "server_serialize eng env
               @ [demarcate ''Scheme switching Part 3: Client deserialize all data'',
                  clientProcess eng env 33554432,
                  demarcate ''Scheme switching Part 4: Server deserialization of data from client. '']"
  let ?C = "[deref tupleCryptoContext_KeyPair (\<lambda>(cc, kp, vectorSize).
                 serverVerification eng env cc kp vectorSize),
               deref ArgminRes (\<lambda>r. emit (CoutVec [] r))]"
  have A: "emits (block ?A) (\<lambda>e. \<not> is_pack e \<and> (secret_use e \<longrightarrow> is_keygen e))"
    unfolding main_setup_def server_generate_def Let_def append.simps
    by (rule emits_intros conjI TrueI | simp only: list.pred_inject
        | (simp add: event_preds; fail))+
  have ent: "\<And>it. emits (serialize_BTKeyMap_entry eng env it) (\<lambda>e. \<not> secret_use e \<and> \<not> is_encrypt e)"
    unfolding serialize_BTKeyMap_entry_def Let_def
    by (rule emits_intros conjI TrueI | simp only: list.pred_inject
        | (simp add: event_preds; fail))+
  have cl: "emits (clientProcess eng env 33554432) (\<lambda>e. \<not> secret_use e \<and> \<not> is_encrypt e)"
    using client_emits [of eng env 33554432] by (simp add: emits_def list_all_iff)
  have B: "emits (block ?B) (\<lambda>e. \<not> secret_use e \<and> \<not> is_encrypt e)"
    unfolding server_serialize_def append.simps
    by (rule emits_intros conjI TrueI emits_block_map ent cl
        | simp only: list.pred_inject | (simp add: event_preds; fail))+
  have ver: "\<And>cc kp n. emits (serverVerification eng env cc kp n)
      (\<lambda>e. \<not> is_pack e \<and> \<not> is_encrypt e \<and> (secret_use e \<longrightarrow> is_decrypt e))"
    unfolding serverVerification_def Let_def
    by (rule emits_intros conjI TrueI | simp only: list.pred_inject
        | (simp add: event_preds; fail))+
  have C: "emits (block ?C)
      (\<lambda>e. \<not> is_pack e \<and> \<not> is_encrypt e \<and> (secret_use e \<longrightarrow> is_decrypt e))"
    by (rule emits_intros conjI TrueI ver
        | simp only: list.pred_inject split_def | (simp add: event_preds; fail))+
  obtain xs s1 where 1: "block ?A s = (xs, s1)" by (cases "block ?A s")
  obtain ys s2 where 2: "block ?B s1 = (ys, s2)" by (cases "block ?B s1")
  obtain zs s3 where 3: "block ?C s2 = (zs, s3)" by (cases "block ?C s2")
  have "fst (main eng env s) = fst (block ?A s) @ ys @ zs"
    unfolding main_split
    by (simp only: block_append [of ?A] block_append [of ?B] 1 2 3 Let_def prod.case fst_conv)
  moreover have "list_all (\<lambda>e. \<not> is_pack e \<and> (secret_use e \<longrightarrow> is_keygen e)) (fst (block ?A s))"
    by (rule emits_fst [OF A])
  moreover have "list_all (\<lambda>e. \<not> secret_use e \<and> \<not> is_encrypt e) ys"
    using emits_fst [OF B, of s1] 2 by simp
  moreover have "list_all (\<lambda>e. \<not> is_pack e \<and> \<not> is_encrypt e \<and> (secret_use e \<longrightarrow> is_decrypt e)) zs"
    using emits_fst [OF C, of s2] 3 by simp
  ultimately show ?thesis by blast
qed

subsection \<open>Failures of the transport\<close>

text \<open>
  C1 (the claim: every transport or deserialization failure in any role ends the
  process at once with a diagnostic and a non-zero status). Two calls are not
  checked. When the client cannot write the result ciphertext, it reports the
  ciphertext as serialized and returns normally, with no diagnostic and no exit, for
  every engine whose argmin returns its two ciphertexts. When the verification
  cannot read the result ciphertext, it goes on and calls the decryption with a null
  ciphertext, where the process ends abnormally, again with no diagnostic and no exit. And
  when the file of the rotation keys cannot be opened, the diagnostic of the client
  names the file of the relinearization keys.
\<close>

theorem unchecked_transport_failures:
  "(status s = Running \<and> holds env s B
      \<and> 0 < unat (bin_beta (b_binCC B)) \<and> unat (bin_beta (b_binCC B)) < 2 ^ 63
      \<and> \<not> out_ok env (DATAFOLDER @ cipherArgminLocation)
      \<and> 1 < length (eEvalMinSchemeSwitching eng
             ((reconstructed_cc B)\<lparr>cc_precompute := Some
                \<lparr>pre_pLWE = ucast (ucast m div (2 * bin_beta (b_binCC B)) :: uint64),
                 pre_arg2 = 0, pre_scaleSign = 512, pre_arg4 = False\<rparr>\<rparr>)
             (b_ciphertext B) (b_publicKey B)
             (ct_slots (b_ciphertext B)) (ct_slots (b_ciphertext B)) 0 1)
    \<longrightarrow> status (snd (clientProcess eng env m s)) = Running
      \<and> length (filter is_failed_pack (fst (clientProcess eng env m s))) = 1
      \<and> filter is_diagnostic (fst (clientProcess eng env m s)) = []
      \<and> last (fst (clientProcess eng env m s)) = Cout ''Serialized ciphertext from client'')
   \<and> (status s = Running
        \<and> (\<not> in_ok env (DATAFOLDER @ cipherArgminLocation)
            \<or> files s (DATAFOLDER @ cipherArgminLocation) = None)
    \<longrightarrow> actions (fst (serverVerification eng env cc kp n s))
          = [Unpack (DATAFOLDER @ cipherArgminLocation) None, Call_Decrypt (secretKey kp) None]
      \<and> status (snd (serverVerification eng env cc kp n s)) = Crashed)
   \<and> (status s = Running
        \<and> readable env s (DATAFOLDER @ ccLocation) (ACryptoContext c0)
        \<and> readable env s (DATAFOLDER @ pubKeyLocation) (APublicKey p0)
        \<and> readable env s (DATAFOLDER @ multKeyLocation) (AEvalMultKeys k0)
        \<and> files s (DATAFOLDER @ rotKeyLocation) = None
    \<longrightarrow> filter is_diagnostic (fst (clientProcess eng env m s))
          = [Cerr (''Cannot read serialization from '' @ DATAFOLDER @ multKeyLocation), Exit 1])"
proof (intro conjI impI)
  assume h: "status s = Running \<and> holds env s B
      \<and> 0 < unat (bin_beta (b_binCC B)) \<and> unat (bin_beta (b_binCC B)) < 2 ^ 63
      \<and> \<not> out_ok env (DATAFOLDER @ cipherArgminLocation)
      \<and> 1 < length (eEvalMinSchemeSwitching eng
             ((reconstructed_cc B)\<lparr>cc_precompute := Some
                \<lparr>pre_pLWE = ucast (ucast m div (2 * bin_beta (b_binCC B)) :: uint64),
                 pre_arg2 = 0, pre_scaleSign = 512, pre_arg4 = False\<rparr>\<rparr>)
             (b_ciphertext B) (b_publicKey B)
             (ct_slots (b_ciphertext B)) (ct_slots (b_ciphertext B)) 0 1)"
  then have r: "status s = Running" and hb: "holds env s B" by simp_all
  obtain e1 s1 e2 s2 where
    run: "clientProcess eng env m s = (e1 @ e2, s2)"
    and 1: "block (client_reconstruct env) s = (e1, s1)"
    and 2: "block (client_evaluate eng env m) s1 = (e2, s2)"
    using client_run by blast
  have a: "actions e1 = reconstruct_actions B"
    using client_reconstruct_run [OF r hb] 1 by simp
  have st: "status s1 = Running" "clientBinCC s1 = Some (reconstructed_binCC B)"
    "clientCC s1 = Some (reconstructed_cc B)" "clientC s1 = Some (b_ciphertext B)"
    "clientPublicKey s1 = Some (b_publicKey B)"
    using client_reconstruct_state [OF r hb] 1 by simp_all
  have nz: "2 * bin_beta (b_binCC B) \<noteq> 0"
    using twice_beta(2) h by blast
  have beta: "bin_beta (reconstructed_binCC B) = bin_beta (b_binCC B)"
    by (simp add: reconstructed_binCC_def)
  have "status (snd (block (client_evaluate eng env m) s1)) = Running
      \<and> length (filter is_failed_pack (fst (block (client_evaluate eng env m) s1))) = 1
      \<and> last (fst (block (client_evaluate eng env m) s1)) = Cout ''Serialized ciphertext from client''
      \<and> fst (block (client_evaluate eng env m) s1) \<noteq> []"
    using st nz h beta
    by (simp add: client_evaluate_def exec_defs Let_def is_failed_pack_def)
  then have ev: "status s2 = Running \<and> length (filter is_failed_pack e2) = 1
      \<and> last e2 = Cout ''Serialized ciphertext from client'' \<and> e2 \<noteq> []"
    using 2 by simp
  have "filter is_diagnostic (actions e1) = []"
    unfolding a by (simp add: reconstruct_actions_def clears_def is_diagnostic_def)
  then have d1: "filter is_diagnostic e1 = []"
    by (simp add: diagnostics_actions)
  have "filter is_failed_pack (actions e1) = []"
    unfolding a by (simp add: reconstruct_actions_def clears_def is_failed_pack_def)
  moreover have "filter is_failed_pack (actions e1) = filter is_failed_pack e1"
    by (rule filter_actions) (auto simp: is_failed_pack_def is_console_def split: event.splits)
  ultimately have f1: "filter is_failed_pack e1 = []" by simp
  from emits_fst [OF client_evaluate_emits, of eng env m s1] 2
  have "list_all (\<lambda>e. \<not> is_diagnostic e) e2"
    by (simp add: list_all_iff)
  then have d2: "filter is_diagnostic e2 = []" by (rule filter_none)
  show "status (snd (clientProcess eng env m s)) = Running"
    and "length (filter is_failed_pack (fst (clientProcess eng env m s))) = 1"
    and "filter is_diagnostic (fst (clientProcess eng env m s)) = []"
    and "last (fst (clientProcess eng env m s)) = Cout ''Serialized ciphertext from client''"
    using run ev d1 d2 f1 by simp_all
next
  assume "status s = Running
        \<and> (\<not> in_ok env (DATAFOLDER @ cipherArgminLocation)
            \<or> files s (DATAFOLDER @ cipherArgminLocation) = None)"
  then have "actions (fst (serverVerification eng env cc kp n s))
          = [Unpack (DATAFOLDER @ cipherArgminLocation) None, Call_Decrypt (secretKey kp) None]
      \<and> status (snd (serverVerification eng env cc kp n s)) = Crashed"
    by (auto simp: serverVerification_def exec_defs Let_def actions_def is_console_def)
  then show "actions (fst (serverVerification eng env cc kp n s))
          = [Unpack (DATAFOLDER @ cipherArgminLocation) None, Call_Decrypt (secretKey kp) None]"
    and "status (snd (serverVerification eng env cc kp n s)) = Crashed"
    by simp_all
next
  assume h: "status s = Running
        \<and> readable env s (DATAFOLDER @ ccLocation) (ACryptoContext c0)
        \<and> readable env s (DATAFOLDER @ pubKeyLocation) (APublicKey p0)
        \<and> readable env s (DATAFOLDER @ multKeyLocation) (AEvalMultKeys k0)
        \<and> files s (DATAFOLDER @ rotKeyLocation) = None"
  obtain e1 s1 e2 s2 where
    run: "clientProcess eng env m s = (e1 @ e2, s2)"
    and 1: "block (client_reconstruct env) s = (e1, s1)"
    and 2: "block (client_evaluate eng env m) s1 = (e2, s2)"
    using client_run by blast
  from h have "filter is_diagnostic (fst (block (client_reconstruct env) s))
      = [Cerr (''Cannot read serialization from '' @ DATAFOLDER @ multKeyLocation), Exit 1]
    \<and> status (snd (block (client_reconstruct env) s)) = Exited 1"
    by (simp add: client_reconstruct_def exec_defs Let_def is_diagnostic_def readable_def)
  with 1 have d1: "filter is_diagnostic e1
      = [Cerr (''Cannot read serialization from '' @ DATAFOLDER @ multKeyLocation), Exit 1]"
    and x: "status s1 \<noteq> Running"
    by simp_all
  from 2 x have "e2 = []" by (simp add: block_not_running)
  with run d1 show "filter is_diagnostic (fst (clientProcess eng env m s))
          = [Cerr (''Cannot read serialization from '' @ DATAFOLDER @ multKeyLocation), Exit 1]"
    by simp
qed

lemma evalmin_ideal:
  "length (eEvalMinSchemeSwitching ideal_engine
     ((reconstructed_cc blobs0)\<lparr>cc_precompute := Some
        \<lparr>pre_pLWE = ucast (ucast (33554432 :: uint32) div (2 * bin_beta (b_binCC blobs0)) :: uint64),
         pre_arg2 = 0, pre_scaleSign = 512, pre_arg4 = False\<rparr>\<rparr>)
     (b_ciphertext blobs0) (b_publicKey blobs0)
     (ct_slots (b_ciphertext blobs0)) (ct_slots (b_ciphertext blobs0)) 0 1) = 2"
  by (simp add: blobs0_def reconstructed_cc_def reconstructed_binCC_def ideal_defs object_defs
      Let_def)

theorem unchecked_transport_failures_witness:
  "status (snd (clientProcess ideal_engine env_no_result 33554432 client0)) = Running
   \<and> length (filter is_failed_pack (fst (clientProcess ideal_engine env_no_result 33554432 client0))) = 1
   \<and> filter is_diagnostic (fst (clientProcess ideal_engine env_no_result 33554432 client0)) = []
   \<and> last (fst (clientProcess ideal_engine env_no_result 33554432 client0))
       = Cout ''Serialized ciphertext from client''
   \<and> actions (fst (serverVerification ideal_engine env_ok cc0 kp0 4 start))
       = [Unpack (DATAFOLDER @ cipherArgminLocation) None, Call_Decrypt (PrivateKeyImpl 1) None]
   \<and> status (snd (serverVerification ideal_engine env_ok cc0 kp0 4 start)) = Crashed
   \<and> filter is_diagnostic (fst (clientProcess ideal_engine env_ok 33554432 client_no_rot))
       = [Cerr (''Cannot read serialization from '' @ DATAFOLDER @ multKeyLocation), Exit 1]"
proof -
  have h: "holds env_no_result client0 blobs0"
    unfolding client0_def by (rule holds_folder) (simp add: env_no_result_def env_ok_def)
  have b: "bin_beta (b_binCC blobs0) = 128"
    by (simp add: blobs0_def ideal_defs object_defs)
  have o: "\<not> out_ok env_no_result (DATAFOLDER @ cipherArgminLocation)"
    by (simp add: env_no_result_def)
  have r: "status client0 = Running" "status start = Running" "status client_no_rot = Running"
    by (simp_all add: client0_def client_no_rot_def start_def)
  have f: "files start (DATAFOLDER @ cipherArgminLocation) = None"
    by (simp add: start_def)
  have n: "readable env_ok client_no_rot (DATAFOLDER @ ccLocation) (ACryptoContext (b_cc blobs0))"
    "readable env_ok client_no_rot (DATAFOLDER @ pubKeyLocation) (APublicKey (b_publicKey blobs0))"
    "readable env_ok client_no_rot (DATAFOLDER @ multKeyLocation) (AEvalMultKeys (b_evalMultKeys blobs0))"
    "files client_no_rot (DATAFOLDER @ rotKeyLocation) = None"
    by (simp_all add: readable_def client_no_rot_def folder_of_def env_ok_def path_defs)
  show ?thesis
    using unchecked_transport_failures
      [of client0 env_no_result blobs0 ideal_engine 33554432 cc0 kp0 4]
      unchecked_transport_failures
      [of start env_ok blobs0 ideal_engine 33554432 cc0 kp0 4]
      unchecked_transport_failures
      [of client_no_rot env_ok blobs0 ideal_engine 33554432 cc0 kp0 4
        "b_cc blobs0" "b_publicKey blobs0" "b_evalMultKeys blobs0"]
      h b o r f n evalmin_ideal
    by (simp add: kp0_def)
qed

subsection \<open>The bootstrapping key map\<close>

text \<open>
  C2, as amended: whatever set of decomposition bases the server wrote, the client
  loads into the bootstrapping key map of the secondary context no base but the one
  fixed base \<open>2 ^ 18 = 262144\<close>; when the files the client reads are all there, it
  unpacks the pair (refreshKey, switchingKey) of that base and inserts it under that
  base, every other entry of the unpacked context's map staying as it was.
\<close>

theorem client_loads_fixed_base:
  "list_all (\<lambda>b. b = 262144) (loaded_bases (fst (clientProcess eng env m s)))
   \<and> (status s = Running \<and> holds env s B \<longrightarrow>
        loaded_bases (fst (clientProcess eng env m s)) = [262144]
      \<and> (\<exists>b. clientBinCC (snd (clientProcess eng env m s)) = Some b
             \<and> map_of (BTKey_map b)
                = (map_of (BTKey_map (b_binCC B)))
                    (262144 \<mapsto> \<lparr>BSkey = b_base_refreshKey B, KSkey = b_base_ksKey B\<rparr>)))"
proof (intro conjI impI)
  show "list_all (\<lambda>b. b = 262144) (loaded_bases (fst (clientProcess eng env m s)))"
    by (rule client_only_fixed_base)
next
  assume "status s = Running \<and> holds env s B"
  then have r: "status s = Running" and h: "holds env s B" by simp_all
  show "loaded_bases (fst (clientProcess eng env m s)) = [262144]"
    using client_bootstrap_run [OF r h] by simp
  have "map_of (BTKey_map (reconstructed_binCC B))
      = (map_of (BTKey_map (b_binCC B)))
          (262144 \<mapsto> \<lparr>BSkey = b_base_refreshKey B, KSkey = b_base_ksKey B\<rparr>)"
    by (simp add: reconstructed_binCC_def map_of_map_insert loaded_BTKey_def)
  then show "\<exists>b. clientBinCC (snd (clientProcess eng env m s)) = Some b
             \<and> map_of (BTKey_map b)
                = (map_of (BTKey_map (b_binCC B)))
                    (262144 \<mapsto> \<lparr>BSkey = b_base_refreshKey B, KSkey = b_base_ksKey B\<rparr>)"
    using client_bootstrap_run [OF r h, of eng m] by simp
qed

theorem client_loads_fixed_base_witness:
  "loaded_bases (fst (clientProcess ideal_engine env_ok 33554432 client0)) = [262144]
   \<and> (\<exists>b. clientBinCC (snd (clientProcess ideal_engine env_ok 33554432 client0)) = Some b
          \<and> map_of (BTKey_map b) = [262144 \<mapsto> BTKey0])"
proof -
  have h: "holds env_ok client0 blobs0"
    unfolding client0_def by (rule holds_folder) (simp add: env_ok_def)
  have r: "status client0 = Running"
    by (simp add: client0_def start_def)
  show ?thesis
    using client_loads_fixed_base [of ideal_engine env_ok 33554432 client0 blobs0] h r
    by (simp add: blobs0_def ideal_defs object_defs)
qed

text \<open>
  The claim as it was stated fails for a server that wrote two bases: the files of
  base \<open>2 ^ 27\<close> are in the data folder, and the client, which runs to its end, loads
  base \<open>2 ^ 18\<close> alone.
\<close>

theorem client_ignores_second_base:
  "map fst (drop 9 (packs (fst (serverSetupAndWrite two_base_engine env_ok 64 4 15 50 60 25 True start))))
     = [refreshKeyFile 262144, ksKeyFile 262144, refreshKeyFile 134217728, ksKeyFile 134217728]
   \<and> 134217728 \<notin> set (loaded_bases (fst (clientProcess two_base_engine env_ok 33554432
        (snd (serverSetupAndWrite two_base_engine env_ok 64 4 15 50 60 25 True start)))))"
proof -
  have r: "status start = Running" by (simp add: start_def)
  have ok: "all_ok env_ok" by (simp add: all_ok_def env_ok_def)
  let ?gen = "server_generate two_base_engine 64 4 15 50 60 25 True"
  obtain e1 s1 where 1: "block ?gen start = (e1, s1)" by (cases "block ?gen start")
  obtain e2 s2 where 2: "block (server_serialize two_base_engine env_ok) s1 = (e2, s2)"
    by (cases "block (server_serialize two_base_engine env_ok) s1")
  have run: "serverSetupAndWrite two_base_engine env_ok 64 4 15 50 60 25 True start = (e1 @ e2, s2)"
    by (simp add: serverSetupAndWrite_def block_append 1 2)
  from server_generate_run [OF r, of two_base_engine 64 4 15 50 60 25 True] 1
  obtain cc kp swk b where g: "status s1 = Running" "serverCC s1 = Some cc" "serverKP s1 = Some kp"
    "swkFHEWtoCKKS s1 = Some swk"
    "serverC s1 = Some (eEncrypt two_base_engine cc (publicKey kp) [1, 2, 3, 4])"
    "serverBinCC s1 = Some b"
    by auto
  from server_generate_two_base 1 g(6)
  have m: "map fst (BTKey_map b) = [262144, 134217728]" by simp
  from server_generate_calls [OF r, of two_base_engine 64 4 15 50 60 25 True] 1
  have p1: "packs e1 = []" by simp
  from server_serialize_run [OF g(1) ok g(2,3,4,5,6), of two_base_engine] 2
  have p2: "packs e2 = fixed_packs s1 cc kp swk (eEncrypt two_base_engine cc (publicKey kp) [1, 2, 3, 4]) b
      @ concat (map entry_packs (BTKey_map b))"
    by simp
  have "map fst (concat (map entry_packs xs))
      = concat (map (\<lambda>k. [refreshKeyFile k, ksKeyFile k]) (map fst xs))" for xs
    by (induction xs) (simp_all add: entry_packs_def)
  then have aux: "map fst (concat (map entry_packs (BTKey_map b)))
      = concat (map (\<lambda>k. [refreshKeyFile k, ksKeyFile k]) [262144, 134217728])"
    unfolding m [symmetric] .
  have "drop 9 (packs (e1 @ e2)) = concat (map entry_packs (BTKey_map b))"
    by (simp add: packs_append p1 p2 fixed_packs_def)
  then have "map fst (drop 9 (packs (e1 @ e2)))
      = [refreshKeyFile 262144, ksKeyFile 262144, refreshKeyFile 134217728, ksKeyFile 134217728]"
    by (simp add: aux)
  moreover have "134217728 \<notin> set (loaded_bases (fst (clientProcess two_base_engine env_ok 33554432 s2)))"
    using client_only_fixed_base [of two_base_engine env_ok 33554432 s2]
    by (auto simp: list_all_iff)
  ultimately show ?thesis by (simp add: run)
qed

text \<open>
  C5 (the claim: the refresh key and the switching key unpacked from the two dedicated
  default files are what is loaded as the default bootstrapping bundle of the secondary
  context, and that load comes before the entries of the bootstrapping key map). The
  code does neither. The two default files are unpacked first, with their checks, into
  \<^verbatim>\<open>refreshKey\<close> and \<^verbatim>\<open>ksKey\<close>; the loop then unpacks the two files of base \<open>2 ^ 18\<close> into
  the same two variables and loads the map entry; only after the loop is the default
  bundle loaded, from the two variables as they then are. So what the default files
  held is read and never used, and the default bundle is the pair of base \<open>2 ^ 18\<close>.
\<close>

theorem client_default_bundle_after_map:
  assumes "status s = Running" "holds env s B"
  shows "bootstrap_steps (fst (clientProcess eng env m s)) =
     [Unpack (DATAFOLDER @ btRkLocation) (Some (ARingGSWACCKey (b_refreshKey B))),
      Unpack (DATAFOLDER @ btSwkLocation) (Some (ALWESwitchingKey (b_ksKey B))),
      Unpack (refreshKeyFile 262144) (Some (ARingGSWACCKey (b_base_refreshKey B))),
      Unpack (ksKeyFile 262144) (Some (ALWESwitchingKey (b_base_ksKey B))),
      Call_BTKeyMapLoadSingleElement 262144
        \<lparr>BSkey = b_base_refreshKey B, KSkey = b_base_ksKey B\<rparr>,
      Call_BTKeyLoad \<lparr>BSkey = b_base_refreshKey B, KSkey = b_base_ksKey B\<rparr>]
   \<and> (\<exists>b. clientBinCC (snd (clientProcess eng env m s)) = Some b
          \<and> BTKey b = \<lparr>BSkey = b_base_refreshKey B, KSkey = b_base_ksKey B\<rparr>)"
  using client_bootstrap_run [OF assms, of eng m]
  by (simp add: loaded_BTKey_def reconstructed_binCC_def)

theorem client_default_bundle_after_map_witness:
  "bootstrap_steps (fst (clientProcess ideal_engine env_ok 33554432 client0)) =
     [Unpack (DATAFOLDER @ btRkLocation) (Some (ARingGSWACCKey (Some (RingGSWACCKeyImpl 1)))),
      Unpack (DATAFOLDER @ btSwkLocation) (Some (ALWESwitchingKey (Some (LWESwitchingKeyImpl 1)))),
      Unpack (refreshKeyFile 262144) (Some (ARingGSWACCKey (Some (RingGSWACCKeyImpl 1)))),
      Unpack (ksKeyFile 262144) (Some (ALWESwitchingKey (Some (LWESwitchingKeyImpl 1)))),
      Call_BTKeyMapLoadSingleElement 262144 BTKey0,
      Call_BTKeyLoad BTKey0]
   \<and> (\<exists>b. clientBinCC (snd (clientProcess ideal_engine env_ok 33554432 client0)) = Some b
          \<and> BTKey b = BTKey0)"
proof -
  have h: "holds env_ok client0 blobs0"
    unfolding client0_def by (rule holds_folder) (simp add: env_ok_def)
  have r: "status client0 = Running"
    by (simp add: client0_def start_def)
  show ?thesis
    using client_default_bundle_after_map [OF r h, of ideal_engine 33554432]
    by (simp add: blobs0_def object_defs)
qed

text \<open>
  On a data folder whose default files hold the keys numbered 1 and whose files of
  base \<open>2 ^ 18\<close> hold the keys numbered 2, the map entry is loaded before the default
  bundle, and the default bundle gets the keys numbered 2.
\<close>

theorem client_default_bundle_overwritten:
  "bootstrap_steps (fst (clientProcess ideal_engine env_ok 33554432 client1)) =
     [Unpack (DATAFOLDER @ btRkLocation) (Some (ARingGSWACCKey (Some (RingGSWACCKeyImpl 1)))),
      Unpack (DATAFOLDER @ btSwkLocation) (Some (ALWESwitchingKey (Some (LWESwitchingKeyImpl 1)))),
      Unpack (refreshKeyFile 262144) (Some (ARingGSWACCKey (Some (RingGSWACCKeyImpl 2)))),
      Unpack (ksKeyFile 262144) (Some (ALWESwitchingKey (Some (LWESwitchingKeyImpl 2)))),
      Call_BTKeyMapLoadSingleElement 262144
        \<lparr>BSkey = Some (RingGSWACCKeyImpl 2), KSkey = Some (LWESwitchingKeyImpl 2)\<rparr>,
      Call_BTKeyLoad
        \<lparr>BSkey = Some (RingGSWACCKeyImpl 2), KSkey = Some (LWESwitchingKeyImpl 2)\<rparr>]"
proof -
  have h: "holds env_ok client1 blobs1"
    unfolding client1_def by (rule holds_folder) (simp add: env_ok_def)
  have r: "status client1 = Running"
    by (simp add: client1_def start_def)
  show ?thesis
    using client_bootstrap_run [OF r h, of ideal_engine 33554432]
    by (simp add: blobs1_def blobs0_def object_defs loaded_BTKey_def)
qed

subsection \<open>The order of the server's serializations\<close>



subsection \<open>The secret key\<close>

text \<open>
  C4, as amended: the secret key never appears in any transported blob: across the
  whole run no serialization call receives a secret key, and the secret key is used
  only locally by the server, by the scheme-switching key generation before anything
  is serialized and by the decryption after everything is; the client uses none.
  (The sample vector is encrypted under the public key.)
\<close>

theorem secret_key_stays_with_server:
  "(\<exists>ks ps ds.
      key_and_transport_steps (fst (main eng env s)) = ks @ ps @ ds
      \<and> list_all is_keygen ks
      \<and> list_all (\<lambda>e. is_pack e \<and> \<not> secret_use e) ps
      \<and> list_all is_decrypt ds)
   \<and> list_all (\<lambda>e. \<not> secret_use e) (fst (clientProcess eng env m s'))"
proof
  obtain xs ys zs where d: "fst (main eng env s) = xs @ ys @ zs"
    and x: "list_all (\<lambda>e. \<not> is_pack e \<and> (secret_use e \<longrightarrow> is_keygen e)) xs"
    and y: "list_all (\<lambda>e. \<not> secret_use e \<and> \<not> is_encrypt e) ys"
    and z: "list_all (\<lambda>e. \<not> is_pack e \<and> \<not> is_encrypt e \<and> (secret_use e \<longrightarrow> is_decrypt e)) zs"
    using main_phases by blast
  let ?f = "filter (\<lambda>e. secret_use e \<or> is_pack e)"
  have "key_and_transport_steps (fst (main eng env s)) = ?f xs @ ?f ys @ ?f zs"
    by (simp add: key_and_transport_steps_def d)
  moreover have "list_all is_keygen (?f xs)"
    by (rule list_all_filter_weaken [OF x]) auto
  moreover have "list_all (\<lambda>e. is_pack e \<and> \<not> secret_use e) (?f ys)"
    by (rule list_all_filter_weaken [OF y]) auto
  moreover have "list_all is_decrypt (?f zs)"
    by (rule list_all_filter_weaken [OF z]) auto
  ultimately show "\<exists>ks ps ds.
      key_and_transport_steps (fst (main eng env s)) = ks @ ps @ ds
      \<and> list_all is_keygen ks
      \<and> list_all (\<lambda>e. is_pack e \<and> \<not> secret_use e) ps
      \<and> list_all is_decrypt ds"
    by blast
  show "list_all (\<lambda>e. \<not> secret_use e) (fst (clientProcess eng env m s'))"
    using emits_fst [OF client_emits, of eng env m s'] by (simp add: list_all_iff)
qed

theorem secret_key_stays_with_server_witness:
  "(\<exists>ks ps ds.
      key_and_transport_steps (fst (main ideal_engine env_ok start)) = ks @ ps @ ds
      \<and> list_all is_keygen ks
      \<and> list_all (\<lambda>e. is_pack e \<and> \<not> secret_use e) ps
      \<and> list_all is_decrypt ds)
   \<and> list_all (\<lambda>e. \<not> secret_use e) (fst (clientProcess ideal_engine env_ok 33554432 client0))"
  using secret_key_stays_with_server [of ideal_engine env_ok start 33554432 client0] .

lemma main_generation_ideal:
  "filter (\<lambda>e. secret_use e \<or> is_encrypt e)
     (fst (block (main_setup ideal_engine) start))
   = [Call_EvalSchemeSwitchingKeyGen kp0 (LWEPrivateKeyImpl 1),
      Call_Encrypt (publicKey kp0) [1, 2, 3, 4]]"
  by (simp add: main_setup_def server_generate_def exec_defs Let_def ideal_defs object_defs
      secret_use_def is_encrypt_def)

text \<open>
  The claim as it was stated fails on the run with the concrete engine: the first use
  of the secret key is by the scheme-switching key generation, which is neither an
  encryption nor a decryption, and the one encryption of the run is given the public
  key.
\<close>

theorem secret_key_used_by_key_generation:
  "hd (filter secret_use (fst (main ideal_engine env_ok start)))
     = Call_EvalSchemeSwitchingKeyGen kp0 (LWEPrivateKeyImpl 1)
   \<and> \<not> is_encrypt (Call_EvalSchemeSwitchingKeyGen kp0 (LWEPrivateKeyImpl 1))
   \<and> \<not> is_decrypt (Call_EvalSchemeSwitchingKeyGen kp0 (LWEPrivateKeyImpl 1))
   \<and> filter is_encrypt (fst (main ideal_engine env_ok start))
     = [Call_Encrypt (publicKey kp0) [1, 2, 3, 4]]
   \<and> \<not> secret_use (Call_Encrypt (publicKey kp0) [1, 2, 3, 4])"
proof -
  let ?xs = "fst (block (main_setup ideal_engine) start)"
  obtain ys zs where d: "fst (main ideal_engine env_ok start) = ?xs @ ys @ zs"
    and y: "list_all (\<lambda>e. \<not> secret_use e \<and> \<not> is_encrypt e) ys"
    and z: "list_all (\<lambda>e. \<not> is_pack e \<and> \<not> is_encrypt e \<and> (secret_use e \<longrightarrow> is_decrypt e)) zs"
    using main_phases [of ideal_engine env_ok start] by blast
  have k: "secret_use (Call_EvalSchemeSwitchingKeyGen kp0 (LWEPrivateKeyImpl 1))"
    "\<not> is_encrypt (Call_EvalSchemeSwitchingKeyGen kp0 (LWEPrivateKeyImpl 1))"
    "\<not> is_decrypt (Call_EvalSchemeSwitchingKeyGen kp0 (LWEPrivateKeyImpl 1))"
    "\<not> secret_use (Call_Encrypt (publicKey kp0) [1, 2, 3, 4])"
    "is_encrypt (Call_Encrypt (publicKey kp0) [1, 2, 3, 4])"
    by (simp_all add: secret_use_def is_encrypt_def is_decrypt_def)
  have "filter secret_use ?xs = filter secret_use (filter (\<lambda>e. secret_use e \<or> is_encrypt e) ?xs)"
    unfolding filter_filter by (rule filter_cong) auto
  then have sx: "filter secret_use ?xs = [Call_EvalSchemeSwitchingKeyGen kp0 (LWEPrivateKeyImpl 1)]"
    using k by (simp only: main_generation_ideal filter.simps if_True if_False)
  have "filter is_encrypt ?xs = filter is_encrypt (filter (\<lambda>e. secret_use e \<or> is_encrypt e) ?xs)"
    unfolding filter_filter by (rule filter_cong) auto
  then have ex: "filter is_encrypt ?xs = [Call_Encrypt (publicKey kp0) [1, 2, 3, 4]]"
    using k by (simp only: main_generation_ideal filter.simps if_True if_False)
  have ey: "filter is_encrypt ys = []" "filter is_encrypt zs = []"
    using y z by (auto intro!: filter_none simp: list_all_iff)
  show ?thesis
    using k by (simp add: d sx ex ey)
qed

subsection \<open>The precision of the comparison\<close>

text \<open>
  C6: when the files the client reads are all there and the beta of the secondary
  context is positive and below \<open>2 ^ 63\<close>, the client calls the precomputation exactly
  once, before the argmin evaluation, with the precision
  \<open>pLWE = modulus_LWE / (2 * beta)\<close> in integer division (and 0, the scale 512 and
  false as its other arguments).
\<close>

theorem client_precompute_precision:
  assumes "status s = Running" "holds env s B"
    and "0 < unat (bin_beta (b_binCC B))" "unat (bin_beta (b_binCC B)) < 2 ^ 63"
  shows "comparison_steps (fst (clientProcess eng env modulus_LWE s)) =
        [Call_EvalCompareSwitchPrecompute
           \<lparr>pre_pLWE = ucast (ucast modulus_LWE div (2 * bin_beta (b_binCC B)) :: uint64),
            pre_arg2 = 0, pre_scaleSign = 512, pre_arg4 = False\<rparr>,
         Call_EvalMinSchemeSwitching (b_ciphertext B) (b_publicKey B)
           (ct_slots (b_ciphertext B)) (ct_slots (b_ciphertext B)) 0 1]
      \<and> unat (ucast (ucast modulus_LWE div (2 * bin_beta (b_binCC B)) :: uint64) :: uint32)
          = unat modulus_LWE div (2 * unat (bin_beta (b_binCC B)))"
proof -
  obtain e1 s1 e2 s2 where
    run: "clientProcess eng env modulus_LWE s = (e1 @ e2, s2)"
    and 1: "block (client_reconstruct env) s = (e1, s1)"
    and 2: "block (client_evaluate eng env modulus_LWE) s1 = (e2, s2)"
    using client_run by blast
  have a: "actions e1 = reconstruct_actions B"
    using client_reconstruct_run [OF assms(1,2)] 1 by simp
  have st: "status s1 = Running" "clientBinCC s1 = Some (reconstructed_binCC B)"
    "clientCC s1 = Some (reconstructed_cc B)" "clientC s1 = Some (b_ciphertext B)"
    "clientPublicKey s1 = Some (b_publicKey B)"
    using client_reconstruct_state [OF assms(1,2)] 1 by simp_all
  have "comparison_steps (actions e1) = []"
    unfolding a
    by (simp add: reconstruct_actions_def comparison_steps_def is_precompute_def is_evalmin_def
        clears_def)
  then have c1: "comparison_steps e1 = []"
    by (simp add: comparison_steps_actions)
  have beta: "bin_beta (reconstructed_binCC B) = bin_beta (b_binCC B)"
    by (simp add: reconstructed_binCC_def)
  have nz: "2 * bin_beta (reconstructed_binCC B) \<noteq> 0"
    using twice_beta(2) [OF assms(3,4)] by (simp add: beta)
  have c2: "comparison_steps e2 =
     [Call_EvalCompareSwitchPrecompute
        \<lparr>pre_pLWE = ucast (ucast modulus_LWE div (2 * bin_beta (b_binCC B)) :: uint64),
         pre_arg2 = 0, pre_scaleSign = 512, pre_arg4 = False\<rparr>,
      Call_EvalMinSchemeSwitching (b_ciphertext B) (b_publicKey B)
        (ct_slots (b_ciphertext B)) (ct_slots (b_ciphertext B)) 0 1]"
    using client_evaluate_steps [OF st(1,2,3,4,5) nz, of eng env modulus_LWE] 2
    by (simp add: beta)
  show ?thesis
    using c1 c2 pLWE_value [OF assms(3,4), of modulus_LWE]
    by (simp add: run comparison_steps_append)
qed

theorem client_precompute_precision_witness:
  "comparison_steps (fst (clientProcess ideal_engine env_ok 33554432 client0)) =
     [Call_EvalCompareSwitchPrecompute
        \<lparr>pre_pLWE = 131072, pre_arg2 = 0, pre_scaleSign = 512, pre_arg4 = False\<rparr>,
      Call_EvalMinSchemeSwitching ct0 (PublicKeyImpl 1) 4 4 0 1]
   \<and> (33554432 :: nat) div (2 * 128) = 131072"
proof -
  have h: "holds env_ok client0 blobs0"
    unfolding client0_def by (rule holds_folder) (simp add: env_ok_def)
  have r: "status client0 = Running"
    by (simp add: client0_def start_def)
  have b: "bin_beta (b_binCC blobs0) = 128"
    by (simp add: blobs0_def ideal_defs object_defs)
  have p: "0 < unat (bin_beta (b_binCC blobs0))" "unat (bin_beta (b_binCC blobs0)) < 2 ^ 63"
    by (simp_all add: b)
  show ?thesis
    using client_precompute_precision [OF r h p, of ideal_engine 33554432]
    by (simp add: b blobs0_def object_defs ideal_defs)
qed

subsection \<open>The verification\<close>

text \<open>
  C7: server setup returns the length of the sample vector with the context and the
  key pair; server verification, given that length, unpacks the result ciphertext,
  decrypts it with the secret key of the key pair it is handed (it unpacks no key),
  sets the plaintext to that length, which cuts it when the decryption is longer,
  and returns it; it encrypts nothing and serializes nothing, and leaves the data
  folder as it was.
\<close>

theorem verification_decrypts_and_truncates:
  "(status s = Running \<and> all_ok env \<longrightarrow>
      (\<exists>cc kp. tupleCryptoContext_KeyPair (snd (serverSetupAndWrite eng env rd bs md sm fm lq oh s))
                 = Some (cc, kp, int (length [1, 2, 3, 4 :: complex]))))
   \<and> (status s = Running
       \<and> readable env s (DATAFOLDER @ cipherArgminLocation) (ACiphertext ct) \<and> 0 \<le> n \<longrightarrow>
        actions (fst (serverVerification eng env cc kp n s)) =
          [Unpack (DATAFOLDER @ cipherArgminLocation) (Some (ACiphertext ct)),
           Call_Decrypt (secretKey kp) (Some ct), Call_SetLength n]
      \<and> ArgminRes (snd (serverVerification eng env cc kp n s))
          = Some (SetLength (nat n) (eDecrypt eng cc (secretKey kp) ct))
      \<and> (nat n \<le> length (eDecrypt eng cc (secretKey kp) ct) \<longrightarrow>
          ArgminRes (snd (serverVerification eng env cc kp n s))
            = Some (take (nat n) (eDecrypt eng cc (secretKey kp) ct)))
      \<and> files (snd (serverVerification eng env cc kp n s)) = files s
      \<and> status (snd (serverVerification eng env cc kp n s)) = Running)"
proof (intro conjI impI)
  assume "status s = Running \<and> all_ok env"
  then have "status s = Running" "all_ok env" by simp_all
  from server_run_ok [OF this, of eng rd bs md sm fm lq oh]
  show "\<exists>cc kp. tupleCryptoContext_KeyPair (snd (serverSetupAndWrite eng env rd bs md sm fm lq oh s))
                 = Some (cc, kp, int (length [1, 2, 3, 4 :: complex]))"
    by auto
next
  assume h: "status s = Running
       \<and> readable env s (DATAFOLDER @ cipherArgminLocation) (ACiphertext ct) \<and> 0 \<le> n"
  then have run: "actions (fst (serverVerification eng env cc kp n s)) =
          [Unpack (DATAFOLDER @ cipherArgminLocation) (Some (ACiphertext ct)),
           Call_Decrypt (secretKey kp) (Some ct), Call_SetLength n]
      \<and> ArgminRes (snd (serverVerification eng env cc kp n s))
          = Some (SetLength (nat n) (eDecrypt eng cc (secretKey kp) ct))
      \<and> files (snd (serverVerification eng env cc kp n s)) = files s
      \<and> status (snd (serverVerification eng env cc kp n s)) = Running"
    by (simp add: serverVerification_def exec_defs Let_def actions_def is_console_def readable_def)
  then show "actions (fst (serverVerification eng env cc kp n s)) =
          [Unpack (DATAFOLDER @ cipherArgminLocation) (Some (ACiphertext ct)),
           Call_Decrypt (secretKey kp) (Some ct), Call_SetLength n]"
    and "ArgminRes (snd (serverVerification eng env cc kp n s))
          = Some (SetLength (nat n) (eDecrypt eng cc (secretKey kp) ct))"
    and "files (snd (serverVerification eng env cc kp n s)) = files s"
    and "status (snd (serverVerification eng env cc kp n s)) = Running"
    by simp_all
  assume "nat n \<le> length (eDecrypt eng cc (secretKey kp) ct)"
  then show "ArgminRes (snd (serverVerification eng env cc kp n s))
            = Some (take (nat n) (eDecrypt eng cc (secretKey kp) ct))"
    using run by (simp add: SetLength_def)
qed

theorem verification_decrypts_and_truncates_witness:
  "(\<exists>cc kp. tupleCryptoContext_KeyPair
        (snd (serverSetupAndWrite ideal_engine env_ok 64 4 15 50 60 25 True start))
      = Some (cc, kp, 4))
   \<and> actions (fst (serverVerification ideal_engine env_ok cc0 kp0 4 verifier0)) =
       [Unpack (DATAFOLDER @ cipherArgminLocation) (Some (ACiphertext result8)),
        Call_Decrypt (PrivateKeyImpl 1) (Some result8), Call_SetLength 4]
   \<and> length (ct_payload result8) = 8
   \<and> ArgminRes (snd (serverVerification ideal_engine env_ok cc0 kp0 4 verifier0))
       = Some [1, 0, 0, 0]"
proof -
  have r: "status start = Running" "status verifier0 = Running"
    by (simp_all add: verifier0_def start_def)
  have ok: "all_ok env_ok" by (simp add: all_ok_def env_ok_def)
  have f: "readable env_ok verifier0 (DATAFOLDER @ cipherArgminLocation) (ACiphertext result8)"
    by (simp add: readable_def verifier0_def env_ok_def)
  have d: "eDecrypt ideal_engine cc0 (secretKey kp0) result8 = [1, 0, 0, 0, 0, 0, 0, 0]"
    by (simp add: ideal_defs kp0_def result8_def)
  show ?thesis
    using verification_decrypts_and_truncates
      [of start env_ok ideal_engine 64 4 15 50 60 25 True result8 4 cc0 kp0]
      verification_decrypts_and_truncates
      [of verifier0 env_ok ideal_engine 64 4 15 50 60 25 True result8 4 cc0 kp0]
      r ok f d
    by (simp add: kp0_def result8_def SetLength_def)
qed

subsection \<open>The registries\<close>

text \<open>
  C8: the client clears the registries of evaluation-multiplication keys,
  evaluation-sum keys and automorphism keys and releases the registered contexts
  before it unpacks anything. In every run of \<^verbatim>\<open>clientProcess\<close> the events before any
  unpacking (a deserialization or the opening of an input stream) begin with the four
  clearing calls. The first four statements of the client are these calls and leave
  the four registries empty, whatever they held; the rest of the client, every
  unpacking with it, runs from that state, so a run of the client does not depend on
  what the registries held before.
\<close>

theorem client_clears_before_unpack:
  "(i < length (fst (clientProcess eng env m s))
      \<and> is_unpack (fst (clientProcess eng env m s) ! i)
    \<longrightarrow> prefix clears (take i (fst (clientProcess eng env m s))))
   \<and> (status s = Running \<longrightarrow>
        block (take 4 (client_reconstruct env)) s = (clears, cleared s)
      \<and> evalMultKeyMap (cleared s) = [] \<and> evalSumKeyMap (cleared s) = []
      \<and> evalAutomorphismKeyMap (cleared s) = [] \<and> allContexts (cleared s) = []
      \<and> fst (clientProcess eng env m s)
          = clears @ fst (block (drop 4 (client_reconstruct env) @ client_evaluate eng env m)
                           (cleared s))
      \<and> snd (clientProcess eng env m s)
          = snd (block (drop 4 (client_reconstruct env) @ client_evaluate eng env m) (cleared s))
      \<and> clientProcess eng env m s = clientProcess eng env m (cleared s))"
proof (intro conjI impI)
  assume a: "i < length (fst (clientProcess eng env m s))
      \<and> is_unpack (fst (clientProcess eng env m s) ! i)"
  show "prefix clears (take i (fst (clientProcess eng env m s)))"
  proof (cases "status s = Running")
    case False
    then have "fst (clientProcess eng env m s) = []"
      by (simp add: clientProcess_def block_not_running)
    with a show ?thesis by simp
  next
    case True
    then obtain x rest where r: "fst (clientProcess eng env m s)
        = clears @ Unpack (DATAFOLDER @ ccLocation) x # rest"
      using client_starts_with_clears by blast
    have "\<not> i < 4"
    proof
      assume "i < 4"
      then have "i = 0 \<or> i = 1 \<or> i = 2 \<or> i = 3" by arith
      then have "\<not> is_unpack ((clears @ Unpack (DATAFOLDER @ ccLocation) x # rest) ! i)"
        by (auto simp: clears_def is_unpack_def)
      with a r show False by simp
    qed
    moreover have "length clears = 4"
      by (simp add: clears_def)
    ultimately have "take i (clears @ Unpack (DATAFOLDER @ ccLocation) x # rest)
        = clears @ take (i - 4) (Unpack (DATAFOLDER @ ccLocation) x # rest)"
      by simp
    with r show ?thesis by simp
  qed
next
  show "evalMultKeyMap (cleared s) = []" "evalSumKeyMap (cleared s) = []"
    "evalAutomorphismKeyMap (cleared s) = []" "allContexts (cleared s) = []"
    by (simp_all add: cleared_def)
next
  assume r: "status s = Running"
  let ?rest = "drop 4 (client_reconstruct env) @ client_evaluate eng env m"
  show c: "block (take 4 (client_reconstruct env)) s = (clears, cleared s)"
    using r by (rule clears_run)
  have split: "client_reconstruct env @ client_evaluate eng env m
      = take 4 (client_reconstruct env) @ ?rest"
    by simp
  have run: "clientProcess eng env m s = (clears @ fst (block ?rest (cleared s)),
      snd (block ?rest (cleared s)))"
    if "status s = Running" for s :: state
    unfolding clientProcess_def split
    by (simp add: block_append clears_run [OF that] split: prod.splits)
  show "fst (clientProcess eng env m s) = clears @ fst (block ?rest (cleared s))"
    and "snd (clientProcess eng env m s) = snd (block ?rest (cleared s))"
    by (simp_all add: run [OF r])
  have "status (cleared s) = Running" "cleared (cleared s) = cleared s"
    using r by (simp_all add: cleared_def)
  then show "clientProcess eng env m s = clientProcess eng env m (cleared s)"
    using run [OF r] run [of "cleared s"] by simp
qed

theorem client_clears_before_unpack_witness:
  "is_unpack (fst (clientProcess ideal_engine env_ok 33554432 client_used) ! 4)
   \<and> prefix clears (take 4 (fst (clientProcess ideal_engine env_ok 33554432 client_used)))
   \<and> evalMultKeyMap client_used = [EvalKeyImpl 7]
   \<and> block (take 4 (client_reconstruct env_ok)) client_used = (clears, client0)
   \<and> evalMultKeyMap client0 = []
   \<and> clientProcess ideal_engine env_ok 33554432 client_used
       = clientProcess ideal_engine env_ok 33554432 client0"
proof -
  have s: "status client_used = Running"
    by (simp add: client_used_def client0_def start_def)
  then obtain x rest where r: "fst (clientProcess ideal_engine env_ok 33554432 client_used)
      = clears @ Unpack (DATAFOLDER @ ccLocation) x # rest"
    using client_starts_with_clears by blast
  have l: "length clears = 4" by (simp add: clears_def)
  have u: "is_unpack (fst (clientProcess ideal_engine env_ok 33554432 client_used) ! 4)"
    unfolding r by (simp add: nth_append l is_unpack_def)
  have n: "4 < length (fst (clientProcess ideal_engine env_ok 33554432 client_used))"
    unfolding r by (simp add: l)
  have c: "cleared client_used = client0"
    by (simp add: cleared_def client_used_def client0_def start_def)
  have e: "evalMultKeyMap client_used = [EvalKeyImpl 7]" "evalMultKeyMap client0 = []"
    by (simp_all add: client_used_def client0_def start_def)
  note run = client_clears_before_unpack [of 4 ideal_engine env_ok 33554432 client_used]
  from run n u
  have p: "prefix clears (take 4 (fst (clientProcess ideal_engine env_ok 33554432 client_used)))"
    by blast
  from run s
  have q: "block (take 4 (client_reconstruct env_ok)) client_used = (clears, cleared client_used)"
    "clientProcess ideal_engine env_ok 33554432 client_used
       = clientProcess ideal_engine env_ok 33554432 (cleared client_used)"
    by blast+
  show ?thesis
    by (intro conjI) (rule u, rule p, rule e(1), rule q(1) [unfolded c], rule e(2),
        rule q(2) [unfolded c])
qed

subsection \<open>The end-to-end run\<close>


subsection \<open>The presets of the server\<close>

text \<open>
  C10: whatever ring dimension, batch size, multiplicative depth, modulus sizes, LWE
  modulus bits and one-hot flag it is called with, server setup generates its one
  context with the security level HEStd_NotSet and calls the scheme-switching setup
  once, with the security level HEStd_NotSet, the preset TOY and the
  arbitrary-function flag false.
\<close>

theorem server_fixes_security_presets:
  assumes "status s = Running"
  shows "map p_securityLevel
           (gen_context_calls (fst (serverSetupAndWrite eng env rd bs md sm fm lq oh s)))
         = [HEStd_NotSet]
       \<and> map (\<lambda>a. (ss_sl a, ss_slBin a, ss_arbFunc a))
           (setup_calls (fst (serverSetupAndWrite eng env rd bs md sm fm lq oh s)))
         = [(HEStd_NotSet, TOY, False)]"
proof -
  let ?gen = "server_generate eng rd bs md sm fm lq oh"
  obtain e1 s1 where 1: "block ?gen s = (e1, s1)" by (cases "block ?gen s")
  obtain e2 s2 where 2: "block (server_serialize eng env) s1 = (e2, s2)"
    by (cases "block (server_serialize eng env) s1")
  have run: "fst (serverSetupAndWrite eng env rd bs md sm fm lq oh s) = e1 @ e2"
    by (simp add: serverSetupAndWrite_def block_append 1 2)
  from server_generate_calls [OF assms, of eng rd bs md sm fm lq oh] 1
  have g: "map p_securityLevel (gen_context_calls e1) = [HEStd_NotSet]"
    "map (\<lambda>a. (ss_sl a, ss_slBin a, ss_arbFunc a)) (setup_calls e1) = [(HEStd_NotSet, TOY, False)]"
    by simp_all
  from emits_fst [OF server_serialize_emits, of eng env s1] 2
  have "list_all (\<lambda>e. \<not> is_generation e) e2" by (simp add: list_all_iff)
  then have "gen_context_calls e2 = []" "setup_calls e2 = []"
    using no_generation_calls by blast+
  with g show ?thesis by (simp add: run calls_append)
qed

theorem server_fixes_security_presets_witness:
  "map p_securityLevel
     (gen_context_calls (fst (serverSetupAndWrite ideal_engine env_ok 1024 8 20 40 50 30 False start)))
   = [HEStd_NotSet]
   \<and> map (\<lambda>a. (ss_sl a, ss_slBin a, ss_arbFunc a))
       (setup_calls (fst (serverSetupAndWrite ideal_engine env_ok 1024 8 20 40 50 30 False start)))
     = [(HEStd_NotSet, TOY, False)]"
proof -
  have "status start = Running" by (simp add: start_def)
  from server_fixes_security_presets [OF this] show ?thesis .
qed

end
